theory Spec2Isabelle
  imports Main "HOL-Library.AList"
begin

section \<open>Strings and the naming helpers\<close>

text \<open>
  Strings are lists of ASCII characters. \<open>toLowerCase\<close> and \<open>toUpperCase\<close> change the
  26 ASCII letters and leave every other character alone.
\<close>

definition upperLetters :: string where
  "upperLetters = ''ABCDEFGHIJKLMNOPQRSTUVWXYZ''"

definition lowerLetters :: string where
  "lowerLetters = ''abcdefghijklmnopqrstuvwxyz''"

definition digitChars :: string where
  "digitChars = ''0123456789''"

definition isUpper :: "char \<Rightarrow> bool" where
  "isUpper c = (c \<in> set upperLetters)"

definition isLower :: "char \<Rightarrow> bool" where
  "isLower c = (c \<in> set lowerLetters)"

definition isDigit :: "char \<Rightarrow> bool" where
  "isDigit c = (c \<in> set digitChars)"

definition isAlnum :: "char \<Rightarrow> bool" where
  "isAlnum c = (isUpper c \<or> isLower c \<or> isDigit c)"

definition lowerChar :: "char \<Rightarrow> char" where
  "lowerChar c = (case map_of (zip upperLetters lowerLetters) c of Some d \<Rightarrow> d | None \<Rightarrow> c)"

definition upperChar :: "char \<Rightarrow> char" where
  "upperChar c = (case map_of (zip lowerLetters upperLetters) c of Some d \<Rightarrow> d | None \<Rightarrow> c)"

definition toLowerCase :: "string \<Rightarrow> string" where
  "toLowerCase s = map lowerChar s"

definition toUpperCase :: "string \<Rightarrow> string" where
  "toUpperCase s = map upperChar s"

definition startsWith :: "string \<Rightarrow> string \<Rightarrow> bool" where
  "startsWith s p = (take (length p) s = p)"

definition endsWith :: "string \<Rightarrow> string \<Rightarrow> bool" where
  "endsWith s p = (length p \<le> length s \<and> drop (length s - length p) s = p)"

text \<open>
  JavaScript's \<open>a || b\<close> on an optional string: the empty string and \<open>undefined\<close> are
  both falsy.
\<close>

definition truthy :: "string option \<Rightarrow> bool" where
  "truthy v = (case v of None \<Rightarrow> False | Some s \<Rightarrow> s \<noteq> [])"

definition orElse :: "string option \<Rightarrow> string \<Rightarrow> string" where
  "orElse v d = (case v of None \<Rightarrow> d | Some s \<Rightarrow> if s = [] then d else s)"

text \<open>\<open>s.split(sep)\<close> for a one-character separator.\<close>

fun splitOn :: "char \<Rightarrow> string \<Rightarrow> string list" where
  "splitOn sep [] = [[]]"
| "splitOn sep (c # cs) =
     (if c = sep then [] # splitOn sep cs
      else (case splitOn sep cs of [] \<Rightarrow> [[c]] | w # ws \<Rightarrow> (c # w) # ws))"

text \<open>\<open>s.replace('#/', '')\<close>: the first occurrence of the two characters is removed.\<close>

fun removeHashSlash :: "string \<Rightarrow> string" where
  "removeHashSlash (a # b # cs) =
     (if a = CHR ''#'' \<and> b = CHR ''/'' then cs else a # removeHashSlash (b # cs))"
| "removeHashSlash cs = cs"

subsection \<open>The casing functions of the change-case package\<close>

text \<open>
  \<open>camelCase\<close> and \<open>pascalCase\<close> are imported from the npm package change-case, which is
  not part of the repository. They are modelled after version 5 of the package (the one
  that exports \<open>kebabCase\<close>) on ASCII input: a zero character is inserted between a
  lower-case letter or digit and an upper-case letter, and between an upper-case letter and
  an upper-case letter followed by a lower-case one; every run of other characters
  separates words; the words are then re-cased and joined.
\<close>

fun splitLowerUpper :: "string \<Rightarrow> string" where
  "splitLowerUpper (a # b # cs) =
     (if (isLower a \<or> isDigit a) \<and> isUpper b then a # CHR 0x00 # b # splitLowerUpper cs
      else a # splitLowerUpper (b # cs))"
| "splitLowerUpper cs = cs"

fun splitUpperUpper :: "string \<Rightarrow> string" where
  "splitUpperUpper (a # b # c # cs) =
     (if isUpper a \<and> isUpper b \<and> isLower c then a # CHR 0x00 # b # c # splitUpperUpper cs
      else a # splitUpperUpper (b # c # cs))"
| "splitUpperUpper cs = cs"

fun stripNonWord :: "bool \<Rightarrow> string \<Rightarrow> string" where
  "stripNonWord inRun [] = []"
| "stripNonWord inRun (c # cs) =
     (if isAlnum c then c # stripNonWord False cs
      else if inRun then stripNonWord True cs
      else CHR 0x00 # stripNonWord True cs)"

definition splitWords :: "string \<Rightarrow> string list" where
  "splitWords s =
     filter (\<lambda>w. w \<noteq> [])
       (splitOn (CHR 0x00) (stripNonWord False (splitUpperUpper (splitLowerUpper s))))"

definition pascalCaseTransform :: "string \<Rightarrow> nat \<Rightarrow> string" where
  "pascalCaseTransform word index =
     (case word of
        [] \<Rightarrow> []
      | char0 # rest \<Rightarrow>
          (if 0 < index \<and> isDigit char0 then CHR ''_'' # char0 # toLowerCase rest
           else upperChar char0 # toLowerCase rest))"

definition pascalCase :: "string \<Rightarrow> string" where
  "pascalCase s =
     concat (map (\<lambda>(index, word). pascalCaseTransform word index) (enumerate 0 (splitWords s)))"

definition camelCase :: "string \<Rightarrow> string" where
  "camelCase s =
     concat (map (\<lambda>(index, word). if index = 0 then toLowerCase word
                                   else pascalCaseTransform word index)
               (enumerate 0 (splitWords s)))"

subsection \<open>Path templates\<close>

text \<open>
  The regular expression \<open>{([^}]+)}\<close>: an opening brace, at least one character other
  than a closing brace, a closing brace. \<open>braceMatch\<close> is given the text after an opening
  brace and returns the name and the text after the closing brace.
\<close>

definition braceMatch :: "string \<Rightarrow> (string \<times> string) option" where
  "braceMatch cs =
     (let name = takeWhile (\<lambda>c. c \<noteq> CHR ''}'') cs;
          rest = dropWhile (\<lambda>c. c \<noteq> CHR ''}'') cs
      in if name \<noteq> [] \<and> rest \<noteq> [] then Some (name, tl rest) else None)"

text \<open>\<open>path.match(/{([^}]+)}/g)\<close>, each match already without its braces.\<close>

function pathParamMatches :: "string \<Rightarrow> string list" where
  "pathParamMatches [] = []"
| "pathParamMatches (c # cs) =
     (if c = CHR ''{'' then
        (case braceMatch cs of
           Some (name, rest) \<Rightarrow> name # pathParamMatches rest
         | None \<Rightarrow> pathParamMatches cs)
      else pathParamMatches cs)"
  by pat_completeness auto
termination
proof (relation "measure length")
  fix c cs x2 name rest
  assume "braceMatch cs = Some x2" and "(name, rest) = x2"
  then have "rest = tl (dropWhile (\<lambda>c. c \<noteq> CHR ''}'') cs)"
    by (auto simp add: braceMatch_def Let_def split: if_splits)
  moreover have "length (dropWhile (\<lambda>c. c \<noteq> CHR ''}'') cs) \<le> length cs"
    by (rule length_dropWhile_le)
  ultimately show "(rest, c # cs) \<in> measure length" by simp
qed auto

text \<open>\<open>path.replace(/{[^}]+}/g, 'By')\<close>.\<close>

function replaceBraces :: "string \<Rightarrow> string" where
  "replaceBraces [] = []"
| "replaceBraces (c # cs) =
     (if c = CHR ''{'' then
        (case braceMatch cs of
           Some (name, rest) \<Rightarrow> ''By'' @ replaceBraces rest
         | None \<Rightarrow> c # replaceBraces cs)
      else c # replaceBraces cs)"
  by pat_completeness auto
termination
proof (relation "measure length")
  fix c cs x2 name rest
  assume "braceMatch cs = Some x2" and "(name, rest) = x2"
  then have "rest = tl (dropWhile (\<lambda>c. c \<noteq> CHR ''}'') cs)"
    by (auto simp add: braceMatch_def Let_def split: if_splits)
  moreover have "length (dropWhile (\<lambda>c. c \<noteq> CHR ''}'') cs) \<le> length cs"
    by (rule length_dropWhile_le)
  ultimately show "(rest, c # cs) \<in> measure length" by simp
qed auto

definition generateOperationId :: "string \<Rightarrow> string \<Rightarrow> string" where
  "generateOperationId method path =
     (let cleanPath0 = filter isAlnum (replaceBraces path);
          cleanPath = (if endsWith cleanPath0 ''By'' then cleanPath0 @ ''Id'' else cleanPath0)
      in camelCase (method @ ''_'' @ cleanPath))"

definition isValidHttpMethod :: "string \<Rightarrow> bool" where
  "isValidHttpMethod method =
     (toUpperCase method \<in> set [''GET'', ''POST'', ''PUT'', ''PATCH'', ''DELETE''])"

definition getActionFromMethod :: "string \<Rightarrow> string" where
  "getActionFromMethod method =
     (let m = toUpperCase method in
      if m = ''GET'' then ''Retrieve''
      else if m = ''POST'' then ''Create''
      else if m = ''PUT'' then ''Update''
      else if m = ''PATCH'' then ''Modify''
      else if m = ''DELETE'' then ''Remove''
      else ''Process'')"

section \<open>The specification document\<close>

text \<open>
  The TypeScript interfaces \<open>SwaggerSpec\<close>, \<open>SwaggerOperation\<close>, \<open>SwaggerSchema\<close>,
  \<open>SwaggerParameter\<close>, \<open>SwaggerRequestBody\<close> and \<open>SwaggerResponse\<close>, field by field. An
  optional field is an \<open>option\<close>. A \<open>Record<string, T>\<close> is the list of its entries in the
  order \<open>Object.entries\<close> enumerates them. Values of type \<open>any\<close> (\<open>enum\<close>, \<open>example\<close>,
  \<open>default\<close>, \<open>examples\<close>) are only copied or not read at all and are kept as text; the
  numeric bounds of a schema, which are never read, are kept as integers. The interfaces
  declare the \<open>schema\<close> of a content entry as mandatory, but the source tests for it
  (\<open>jsonContent?.schema\<close>), and a content entry without a schema is a valid OpenAPI
  document: it is optional here.
\<close>

datatype SwaggerSchema = SwaggerSchema
  (s_type: "string option")
  (s_format: "string option")
  (s_properties: "(string \<times> SwaggerSchema) list option")
  (s_required: "string list option")
  (s_items: "SwaggerSchema option")
  (s_allOf: "SwaggerSchema list option")
  (s_oneOf: "SwaggerSchema list option")
  (s_anyOf: "SwaggerSchema list option")
  (s_ref: "string option")
  (s_enum: "string list option")
  (s_description: "string option")
  (s_example: "string option")
  (s_default: "string option")
  (s_minimum: "int option")
  (s_maximum: "int option")
  (s_minLength: "int option")
  (s_maxLength: "int option")
  (s_pattern: "string option")
  (s_additionalProperties: "(bool + SwaggerSchema) option")

datatype ParamIn = InQuery | InPath | InHeader | InCookie

record SwaggerParameter =
  p_name :: string
  p_in :: ParamIn
  p_required :: "bool option"
  p_schema :: "SwaggerSchema option"
  p_type :: "string option"
  p_format :: "string option"
  p_description :: "string option"
  p_example :: "string option"

record SwaggerMediaType =
  mt_schema :: "SwaggerSchema option"
  mt_examples :: "(string \<times> string) list option"

record SwaggerRequestBody =
  rb_required :: "bool option"
  rb_content :: "(string \<times> SwaggerMediaType) list"
  rb_description :: "string option"

record SwaggerResponse =
  r_description :: string
  r_content :: "(string \<times> SwaggerMediaType) list option"
  r_headers :: "(string \<times> SwaggerParameter) list option"
  r_schema :: "SwaggerSchema option"

record SwaggerOperation =
  op_operationId :: "string option"
  op_summary :: "string option"
  op_description :: "string option"
  op_tags :: "string list option"
  op_parameters :: "SwaggerParameter list option"
  op_requestBody :: "SwaggerRequestBody option"
  op_responses :: "(string \<times> SwaggerResponse) list"
  op_security :: "(string \<times> string list) list list option"

record SwaggerInfo =
  i_title :: string
  i_version :: string
  i_description :: "string option"

record SwaggerServer =
  sv_url :: string
  sv_description :: "string option"

record SwaggerComponents =
  c_schemas :: "(string \<times> SwaggerSchema) list option"
  c_parameters :: "(string \<times> SwaggerParameter) list option"
  c_responses :: "(string \<times> SwaggerResponse) list option"

record SwaggerSpec =
  openapi :: "string option"
  swagger :: "string option"
  info :: SwaggerInfo
  servers :: "SwaggerServer list option"
  paths :: "(string \<times> (string \<times> SwaggerOperation) list) list"
  components :: "SwaggerComponents option"
  definitions :: "(string \<times> SwaggerSchema) list option"
  parameters :: "(string \<times> SwaggerParameter) list option"

section \<open>The documentation records\<close>

text \<open>
  \<open>ApiDocumentation\<close> and \<open>ModelDocumentation\<close>. The source stores \<open>pathParams\<close>,
  \<open>properties\<close> and \<open>required\<close> as \<open>JSON.stringify\<close> of an object; the records here hold
  the object that is handed to \<open>JSON.stringify\<close>. A field that is \<open>undefined\<close> in such
  an object is \<open>None\<close> (the serialisation drops it).
\<close>

datatype Property =
    PrimitiveProperty (pr_type: string) (pr_description: "string option")
      (pr_enum: "string list option") (pr_example: "string option")
  | ArrayProperty (pr_items: Property) "string option"
  | ObjectProperty "(string \<times> Property) list" "string list" "string option"

record PathParam =
  pp_type :: string
  pp_required :: bool
  pp_description :: "string option"

record ApiDocumentation =
  sNo :: nat
  endpoint :: string
  httpMethod :: string
  tag :: string
  operationId :: string
  summary :: string
  pathParams :: "(string \<times> PathParam) list option"
  queryParamsRef :: "string option"
  requestBodyRef :: "string option"
  responseBodyRef :: "string option"
  isPaginated :: bool
  requiresAuth :: bool
  businessPurpose :: string

record ModelDocumentation =
  m_sNo :: nat
  modelName :: string
  m_properties :: "(string \<times> Property) list"
  m_required :: "string list option"
  m_description :: "string option"
  usedInOperations :: "string option"

section \<open>Type mapping\<close>

definition mapSwaggerTypeToTypeScript :: "string option \<Rightarrow> string option \<Rightarrow> string" where
  "mapSwaggerTypeToTypeScript type format =
     (if type = Some ''integer'' \<or> type = Some ''number'' then ''number''
      else if type = Some ''boolean'' then ''boolean''
      else if type = Some ''string'' then
        (if format = Some ''date'' \<or> format = Some ''date-time'' then ''Date'' else ''string'')
      else if type = Some ''array'' then ''array''
      else if type = Some ''object'' then ''object''
      else ''any'')"

definition getParameterType :: "SwaggerParameter \<Rightarrow> string" where
  "getParameterType param =
     (case p_schema param of
        Some sch \<Rightarrow> mapSwaggerTypeToTypeScript (s_type sch) (s_format sch)
      | None \<Rightarrow> mapSwaggerTypeToTypeScript (p_type param) (p_format param))"

section \<open>Semantic heuristics\<close>

definition parametersOf :: "SwaggerOperation \<Rightarrow> SwaggerParameter list" where
  "parametersOf operation = (case op_parameters operation of None \<Rightarrow> [] | Some ps \<Rightarrow> ps)"

definition hasQueryParams :: "SwaggerOperation \<Rightarrow> bool" where
  "hasQueryParams operation = list_ex (\<lambda>p. p_in p = InQuery) (parametersOf operation)"

text \<open>\<open>response.content?.['application/json']?.schema\<close>\<close>

definition jsonSchema :: "SwaggerResponse \<Rightarrow> SwaggerSchema option" where
  "jsonSchema response =
     (case r_content response of
        None \<Rightarrow> None
      | Some content \<Rightarrow>
          (case map_of content ''application/json'' of
             None \<Rightarrow> None
           | Some jsonContent \<Rightarrow> mt_schema jsonContent))"

text \<open>\<open>response.content?.['application/json']?.schema || response.schema\<close>\<close>

definition responseSchema :: "SwaggerResponse \<Rightarrow> SwaggerSchema option" where
  "responseSchema response =
     (case jsonSchema response of Some sch \<Rightarrow> Some sch | None \<Rightarrow> r_schema response)"

definition hasResponseBody :: "SwaggerOperation \<Rightarrow> bool" where
  "hasResponseBody operation =
     list_ex (\<lambda>(status, response). responseSchema response \<noteq> None) (op_responses operation)"

definition pageParamNames :: "string list" where
  "pageParamNames = [''page'', ''offset'', ''limit'', ''size'', ''pageSize'', ''pageNumber'']"

definition paginationFields :: "string list" where
  "paginationFields =
     [''totalCount'', ''totalPages'', ''page'', ''pageSize'', ''hasNext'', ''hasPrevious'']"

definition isPaginatedSchema :: "SwaggerSchema option \<Rightarrow> bool" where
  "isPaginatedSchema schema =
     (case schema of
        None \<Rightarrow> False
      | Some sch \<Rightarrow>
          (case s_properties sch of
             None \<Rightarrow> False
           | Some props \<Rightarrow>
               (let schemaFields = map (\<lambda>(f, _). toLowerCase f) props
                in list_ex (\<lambda>field. toLowerCase field \<in> set schemaFields) paginationFields)))"

definition detectPagination :: "SwaggerOperation \<Rightarrow> bool" where
  "detectPagination operation =
     (let hasPageParams =
            list_ex (\<lambda>p. toLowerCase (p_name p) \<in> set pageParamNames) (parametersOf operation);
          hasPaginatedResponse =
            list_ex (\<lambda>(status, response). isPaginatedSchema (responseSchema response))
              (op_responses operation)
      in hasPageParams \<or> hasPaginatedResponse)"

definition detectAuthentication :: "SwaggerOperation \<Rightarrow> bool" where
  "detectAuthentication operation =
     (case op_security operation of None \<Rightarrow> False | Some reqs \<Rightarrow> 0 < length reqs)"

definition generateBusinessPurpose ::
  "SwaggerOperation \<Rightarrow> string \<Rightarrow> string \<Rightarrow> string \<Rightarrow> string" where
  "generateBusinessPurpose operation tg method path =
     (let entity = (if endsWith tg ''s'' then butlast tg else tg);
          action = getActionFromMethod method;
          generated = action @ '' '' @ entity @ '' data for '' @ tg @ '' management functionality''
      in orElse (op_description operation)
           (case op_summary operation of
              None \<Rightarrow> generated
            | Some s \<Rightarrow>
                if s = [] then generated
                else s @ '' - Used for '' @ tg @ '' management in the application''))"

section \<open>The operation builder\<close>

text \<open>
  \<open>pathParams[name] = value\<close> on a JavaScript object keeps the place of a name that is
  already there and appends a new one: that is \<open>AList.update\<close>. (JavaScript enumerates
  names that are array indices before all others; the lists here keep the order of
  insertion, and no statement below depends on the order of a property map.)
\<close>

definition extractPathParameters ::
  "string \<Rightarrow> SwaggerOperation \<Rightarrow> SwaggerSpec \<Rightarrow> (string \<times> PathParam) list option" where
  "extractPathParameters path operation api =
     (let pathParamMatches = pathParamMatches path in
      if pathParamMatches = [] then None
      else
        (let pathParams =
               fold (\<lambda>paramName acc.
                       (case find (\<lambda>p. p_name p = paramName \<and> p_in p = InPath)
                               (parametersOf operation) of
                          Some param \<Rightarrow>
                            AList.update paramName
                              \<lparr> pp_type = getParameterType param,
                                pp_required = (p_required param = Some True \<or> True),
                                pp_description = p_description param \<rparr> acc
                        | None \<Rightarrow>
                            AList.update paramName
                              \<lparr> pp_type = ''string'', pp_required = True,
                                pp_description = None \<rparr> acc))
                 pathParamMatches []
         in if 0 < length pathParams then Some pathParams else None))"

definition createApiDocumentation ::
  "nat \<Rightarrow> string \<Rightarrow> string \<Rightarrow> SwaggerOperation \<Rightarrow> SwaggerSpec \<Rightarrow> ApiDocumentation" where
  "createApiDocumentation n path method operation api =
     (let tg = (case op_tags operation of
                  Some (t # _) \<Rightarrow> (if t = [] then ''default'' else t)
                | _ \<Rightarrow> ''default'');
          opId = orElse (op_operationId operation) (generateOperationId method path)
      in \<lparr> sNo = n,
           endpoint = path,
           httpMethod = method,
           tag = tg,
           operationId = opId,
           summary = orElse (op_summary operation) (method @ '' '' @ path),
           pathParams = extractPathParameters path operation api,
           queryParamsRef =
             (if hasQueryParams operation then Some (pascalCase opId @ ''QueryParams'') else None),
           requestBodyRef =
             (if op_requestBody operation \<noteq> None then Some (pascalCase opId @ ''InData'')
              else None),
           responseBodyRef =
             (if hasResponseBody operation then Some (pascalCase opId @ ''OutData'') else None),
           isPaginated = detectPagination operation,
           requiresAuth = detectAuthentication operation,
           businessPurpose = generateBusinessPurpose operation tg method path \<rparr>)"

section \<open>Reference resolution\<close>

text \<open>
  The functions below return a result or a \<open>failure\<close>.

  \<open>RangeError\<close>: a schema graph with a cycle makes \<open>extractSchemaProperties\<close> and
  \<open>convertSchemaToProperty\<close> call each other until the call stack is exhausted, and
  JavaScript throws a \<open>RangeError\<close>, which ends the synthesis. The two functions take the
  number of nested calls that are still allowed.

  \<open>UntypedReference\<close>: \<open>resolveSchema\<close> walks the document as an untyped object, so a
  pointer may reach a value that is no schema. The source returns that value and its
  callers read it as a schema, against the declared return type. Where such a value has
  none of the fields of a schema, it reads as the schema without fields, and that is what
  \<open>resolveSchema\<close> returns here. Where it has some of them, with values of other types (an
  \<open>info\<close> object with its \<open>description\<close>, a parameter with \<open>required: true\<close>), or where
  the walk goes through a value that the document does not determine (a member of a
  function, a value of type \<open>any\<close>), what the source computes is not modelled:
  \<open>resolveSchema\<close> stops with \<open>UntypedReference\<close>, and no theorem speaks about such a
  pointer.
\<close>

datatype failure = RangeError | UntypedReference

text \<open>
  The document as \<open>resolveSchema\<close> sees it: objects with their own keys, arrays, schemas,
  falsy values (the empty string, \<open>false\<close>, \<open>0\<close>), the other strings, numbers and
  booleans (\<open>Primitive\<close>), the functions and the object that every object inherits from
  \<open>Object.prototype\<close> (\<open>Inherited\<close>), and the values of type \<open>any\<close> (\<open>Unknown\<close>). The
  document has the fields that the interfaces declare, and no others.
\<close>

datatype tree =
    Obj "(string \<times> tree) list"
  | Arr "tree list"
  | Sch SwaggerSchema
  | Falsy
  | Primitive
  | Inherited
  | Unknown

definition stringTree :: "string \<Rightarrow> tree" where
  "stringTree s = (if s = [] then Falsy else Primitive)"

definition boolTree :: "bool \<Rightarrow> tree" where
  "boolTree b = (if b then Primitive else Falsy)"

definition numberTree :: "int \<Rightarrow> tree" where
  "numberTree n = (if n = 0 then Falsy else Primitive)"

definition anyTree :: "string \<Rightarrow> tree" where
  "anyTree v = Unknown"

definition tableTree :: "('v \<Rightarrow> tree) \<Rightarrow> (string \<times> 'v) list \<Rightarrow> tree" where
  "tableTree f table = Obj (map (\<lambda>(k, v). (k, f v)) table)"

definition arrayTree :: "('v \<Rightarrow> tree) \<Rightarrow> 'v list \<Rightarrow> tree" where
  "arrayTree f xs = Arr (map f xs)"

text \<open>An optional field is an own key of the object only when it is present.\<close>

definition optionalField :: "string \<Rightarrow> 'v option \<Rightarrow> ('v \<Rightarrow> tree) \<Rightarrow> (string \<times> tree) list" where
  "optionalField k v f = (case v of None \<Rightarrow> [] | Some x \<Rightarrow> [(k, f x)])"

definition schemaMembers :: "SwaggerSchema \<Rightarrow> (string \<times> tree) list" where
  "schemaMembers sch =
     optionalField ''type'' (s_type sch) stringTree
     @ optionalField ''format'' (s_format sch) stringTree
     @ optionalField ''properties'' (s_properties sch) (tableTree Sch)
     @ optionalField ''required'' (s_required sch) (arrayTree stringTree)
     @ optionalField ''items'' (s_items sch) Sch
     @ optionalField ''allOf'' (s_allOf sch) (arrayTree Sch)
     @ optionalField ''oneOf'' (s_oneOf sch) (arrayTree Sch)
     @ optionalField ''anyOf'' (s_anyOf sch) (arrayTree Sch)
     @ optionalField ''$ref'' (s_ref sch) stringTree
     @ optionalField ''enum'' (s_enum sch) (arrayTree anyTree)
     @ optionalField ''description'' (s_description sch) stringTree
     @ optionalField ''example'' (s_example sch) anyTree
     @ optionalField ''default'' (s_default sch) anyTree
     @ optionalField ''minimum'' (s_minimum sch) numberTree
     @ optionalField ''maximum'' (s_maximum sch) numberTree
     @ optionalField ''minLength'' (s_minLength sch) numberTree
     @ optionalField ''maxLength'' (s_maxLength sch) numberTree
     @ optionalField ''pattern'' (s_pattern sch) stringTree
     @ optionalField ''additionalProperties'' (s_additionalProperties sch)
         (\<lambda>v. case v of Inl b \<Rightarrow> boolTree b | Inr sub \<Rightarrow> Sch sub)"

definition parameterTree :: "SwaggerParameter \<Rightarrow> tree" where
  "parameterTree p =
     Obj ([(''name'', stringTree (p_name p)), (''in'', Primitive)]
          @ optionalField ''required'' (p_required p) boolTree
          @ optionalField ''schema'' (p_schema p) Sch
          @ optionalField ''type'' (p_type p) stringTree
          @ optionalField ''format'' (p_format p) stringTree
          @ optionalField ''description'' (p_description p) stringTree
          @ optionalField ''example'' (p_example p) anyTree)"

definition mediaTypeTree :: "SwaggerMediaType \<Rightarrow> tree" where
  "mediaTypeTree m =
     Obj (optionalField ''schema'' (mt_schema m) Sch
          @ optionalField ''examples'' (mt_examples m) (tableTree anyTree))"

definition requestBodyTree :: "SwaggerRequestBody \<Rightarrow> tree" where
  "requestBodyTree rb =
     Obj (optionalField ''required'' (rb_required rb) boolTree
          @ [(''content'', tableTree mediaTypeTree (rb_content rb))]
          @ optionalField ''description'' (rb_description rb) stringTree)"

definition responseTree :: "SwaggerResponse \<Rightarrow> tree" where
  "responseTree r =
     Obj ([(''description'', stringTree (r_description r))]
          @ optionalField ''content'' (r_content r) (tableTree mediaTypeTree)
          @ optionalField ''headers'' (r_headers r) (tableTree parameterTree)
          @ optionalField ''schema'' (r_schema r) Sch)"

definition operationTree :: "SwaggerOperation \<Rightarrow> tree" where
  "operationTree operation =
     Obj (optionalField ''operationId'' (op_operationId operation) stringTree
          @ optionalField ''summary'' (op_summary operation) stringTree
          @ optionalField ''description'' (op_description operation) stringTree
          @ optionalField ''tags'' (op_tags operation) (arrayTree stringTree)
          @ optionalField ''parameters'' (op_parameters operation) (arrayTree parameterTree)
          @ optionalField ''requestBody'' (op_requestBody operation) requestBodyTree
          @ [(''responses'', tableTree responseTree (op_responses operation))]
          @ optionalField ''security'' (op_security operation)
              (arrayTree (tableTree (arrayTree stringTree))))"

definition componentsTree :: "SwaggerComponents \<Rightarrow> tree" where
  "componentsTree c =
     Obj (optionalField ''schemas'' (c_schemas c) (tableTree Sch)
          @ optionalField ''parameters'' (c_parameters c) (tableTree parameterTree)
          @ optionalField ''responses'' (c_responses c) (tableTree responseTree))"

definition specTree :: "SwaggerSpec \<Rightarrow> tree" where
  "specTree api =
     Obj (optionalField ''openapi'' (openapi api) stringTree
          @ optionalField ''swagger'' (swagger api) stringTree
          @ [(''info'',
              Obj ([(''title'', stringTree (i_title (info api))),
                    (''version'', stringTree (i_version (info api)))]
                   @ optionalField ''description'' (i_description (info api)) stringTree))]
          @ optionalField ''servers'' (servers api)
              (arrayTree (\<lambda>sv. Obj ([(''url'', stringTree (sv_url sv))]
                                    @ optionalField ''description'' (sv_description sv) stringTree)))
          @ [(''paths'', tableTree (tableTree operationTree) (paths api))]
          @ optionalField ''components'' (components api) componentsTree
          @ optionalField ''definitions'' (definitions api) (tableTree Sch)
          @ optionalField ''parameters'' (parameters api) (tableTree parameterTree))"

text \<open>
  \<open>resolved[segment]\<close>. The objects of a parsed document are plain objects: a name that is
  no own key is looked up in \<open>Object.prototype\<close>, whose twelve members are functions or
  objects, not \<open>undefined\<close>. An array has its indices, written without a sign or leading
  zeros, its \<open>length\<close>, and the members it inherits; their names differ between versions
  of the language, but every such name is an identifier, so a segment that is neither an
  index nor an identifier is \<open>undefined\<close>. The same holds for the members of a string, a
  number or a boolean. \<open>Untyped\<close> is the answer where the document does not determine
  the value.
\<close>

definition objectPrototypeNames :: "string list" where
  "objectPrototypeNames =
     [''constructor'', ''__defineGetter__'', ''__defineSetter__'', ''hasOwnProperty'',
      ''__lookupGetter__'', ''__lookupSetter__'', ''isPrototypeOf'', ''propertyIsEnumerable'',
      ''toString'', ''valueOf'', ''__proto__'', ''toLocaleString'']"

definition digitValue :: "char \<Rightarrow> nat" where
  "digitValue c = length (takeWhile (\<lambda>d. d \<noteq> c) digitChars)"

definition arrayIndex :: "string \<Rightarrow> nat option" where
  "arrayIndex k =
     (if k \<noteq> [] \<and> list_all isDigit k \<and> (k = ''0'' \<or> hd k \<noteq> CHR ''0'')
      then Some (foldl (\<lambda>n c. 10 * n + digitValue c) 0 k)
      else None)"

definition isIdentifier :: "string \<Rightarrow> bool" where
  "isIdentifier k =
     (case k of
        [] \<Rightarrow> False
      | c # cs \<Rightarrow>
          (isUpper c \<or> isLower c \<or> c = CHR ''_'' \<or> c = CHR ''$'')
          \<and> list_all (\<lambda>d. isAlnum d \<or> d = CHR ''_'' \<or> d = CHR ''$'') cs)"

datatype lookup = Undefined | Untyped | Value tree

definition getOwnOrInherited :: "(string \<times> tree) list \<Rightarrow> string \<Rightarrow> lookup" where
  "getOwnOrInherited members k =
     (case map_of members k of
        Some v \<Rightarrow> Value v
      | None \<Rightarrow> if k \<in> set objectPrototypeNames then Value Inherited else Undefined)"

fun getField :: "tree \<Rightarrow> string \<Rightarrow> lookup" where
  "getField (Obj members) k = getOwnOrInherited members k"
| "getField (Sch sch) k = getOwnOrInherited (schemaMembers sch) k"
| "getField (Arr xs) k =
     (case arrayIndex k of
        Some i \<Rightarrow> if i < length xs then Value (xs ! i) else Undefined
      | None \<Rightarrow>
          if k = ''length'' then Value (if xs = [] then Falsy else Primitive)
          else if isIdentifier k then Untyped
          else Undefined)"
| "getField Falsy k = Undefined"
| "getField Primitive k = (if arrayIndex k \<noteq> None \<or> isIdentifier k then Untyped else Undefined)"
| "getField Inherited k = Untyped"
| "getField Unknown k = Untyped"

text \<open>
  The loop over the pointer's segments; it breaks at the first value that is \<open>undefined\<close>
  or falsy, and \<open>resolved || schema\<close> then returns the schema that was passed in.
\<close>

fun walk :: "tree \<Rightarrow> string list \<Rightarrow> lookup" where
  "walk resolved [] = Value resolved"
| "walk resolved (segment # rest) =
     (case getField resolved segment of
        Undefined \<Rightarrow> Undefined
      | Untyped \<Rightarrow> Untyped
      | Value Falsy \<Rightarrow> Undefined
      | Value next \<Rightarrow> walk next rest)"

definition refPath :: "string \<Rightarrow> string list" where
  "refPath r = splitOn (CHR ''/'') (removeHashSlash r)"

text \<open>
  \<open>resolved || schema\<close>, as the callers of \<open>resolveSchema\<close> read it. They read the value
  through the fields of a schema only. An array, a string, a number, a boolean and an
  inherited function have none of these fields; an object has those among its own keys.
\<close>

definition schemaFieldNames :: "string list" where
  "schemaFieldNames =
     [''type'', ''format'', ''properties'', ''required'', ''items'', ''allOf'', ''oneOf'',
      ''anyOf'', ''$ref'', ''enum'', ''description'', ''example'', ''default'', ''minimum'',
      ''maximum'', ''minLength'', ''maxLength'', ''pattern'', ''additionalProperties'']"

definition withoutFields :: SwaggerSchema where
  "withoutFields =
     SwaggerSchema None None None None None None None None None None None None None None None
       None None None None"

fun readAsSchema :: "tree \<Rightarrow> SwaggerSchema \<Rightarrow> failure + SwaggerSchema" where
  "readAsSchema Falsy schema = Inr schema"
| "readAsSchema (Sch resolved) schema = Inr resolved"
| "readAsSchema (Obj members) schema =
     (if \<exists>k \<in> set (map fst members). k \<in> set schemaFieldNames then Inl UntypedReference
      else Inr withoutFields)"
| "readAsSchema (Arr xs) schema = Inr withoutFields"
| "readAsSchema Primitive schema = Inr withoutFields"
| "readAsSchema Inherited schema = Inr withoutFields"
| "readAsSchema Unknown schema = Inl UntypedReference"

definition resolveSchema :: "SwaggerSchema \<Rightarrow> SwaggerSpec \<Rightarrow> failure + SwaggerSchema" where
  "resolveSchema schema api =
     (if truthy (s_ref schema) then
        (case walk (specTree api) (refPath (orElse (s_ref schema) [])) of
           Undefined \<Rightarrow> Inr schema
         | Untyped \<Rightarrow> Inl UntypedReference
         | Value resolved \<Rightarrow> readAsSchema resolved schema)
      else Inr schema)"

section \<open>Property extraction\<close>

text \<open>\<open>[...new Set(required)]\<close>: the first occurrence of every name, in order.\<close>

definition uniq :: "string list \<Rightarrow> string list" where
  "uniq xs = fold (\<lambda>x acc. if x \<in> set acc then acc else acc @ [x]) xs []"

text \<open>\<open>Object.assign(target, source)\<close>\<close>

definition assign :: "(string \<times> 'v) list \<Rightarrow> (string \<times> 'v) list \<Rightarrow> (string \<times> 'v) list" where
  "assign target source = fold (\<lambda>(k, v) acc. AList.update k v acc) source target"

text \<open>A loop whose body may throw: the first failure ends it.\<close>

fun forEach :: "('a \<Rightarrow> failure + 'b) \<Rightarrow> 'a list \<Rightarrow> failure + 'b list" where
  "forEach f [] = Inr []"
| "forEach f (x # xs) =
     (case f x of
        Inl e \<Rightarrow> Inl e
      | Inr y \<Rightarrow> (case forEach f xs of Inl e \<Rightarrow> Inl e | Inr ys \<Rightarrow> Inr (y # ys)))"

definition entriesOf :: "(string \<times> 'v) list option \<Rightarrow> (string \<times> 'v) list" where
  "entriesOf table = (case table of None \<Rightarrow> [] | Some t \<Rightarrow> t)"

definition listOf :: "'a list option \<Rightarrow> 'a list" where
  "listOf l = (case l of None \<Rightarrow> [] | Some xs \<Rightarrow> xs)"

fun extractSchemaProperties ::
      "nat \<Rightarrow> SwaggerSchema \<Rightarrow> SwaggerSpec \<Rightarrow> failure + ((string \<times> Property) list \<times> string list)"
  and convertSchemaToProperty :: "nat \<Rightarrow> SwaggerSchema \<Rightarrow> SwaggerSpec \<Rightarrow> failure + Property"
where
  "extractSchemaProperties 0 schema api = Inl RangeError"
| "extractSchemaProperties (Suc depth) schema api =
     (case forEach (\<lambda>(propName, propSchema).
                      case convertSchemaToProperty depth propSchema api of
                        Inl e \<Rightarrow> Inl e
                      | Inr p \<Rightarrow> Inr (propName, p))
             (entriesOf (s_properties schema)) of
        Inl e \<Rightarrow> Inl e
      | Inr own \<Rightarrow>
          (case forEach (\<lambda>subSchema.
                           case resolveSchema subSchema api of
                             Inl e \<Rightarrow> Inl e
                           | Inr resolved \<Rightarrow> extractSchemaProperties depth resolved api)
                  (listOf (s_allOf schema)) of
             Inl e \<Rightarrow> Inl e
           | Inr subs \<Rightarrow>
               Inr (foldl (\<lambda>properties subProps. assign properties (fst subProps))
                      (assign [] own) subs,
                    uniq (listOf (s_required schema) @ concat (map snd subs)))))"
| "convertSchemaToProperty 0 schema api = Inl RangeError"
| "convertSchemaToProperty (Suc depth) schema api =
     (case resolveSchema schema api of
        Inl e \<Rightarrow> Inl e
      | Inr resolved \<Rightarrow>
          if s_type resolved = Some ''array'' then
            (case s_items resolved of
               None \<Rightarrow>
                 Inr (ArrayProperty (PrimitiveProperty ''any'' None None None)
                        (s_description resolved))
             | Some items \<Rightarrow>
                 (case convertSchemaToProperty depth items api of
                    Inl e \<Rightarrow> Inl e
                  | Inr p \<Rightarrow> Inr (ArrayProperty p (s_description resolved))))
          else if s_type resolved = Some ''object'' then
            (case extractSchemaProperties depth resolved api of
               Inl e \<Rightarrow> Inl e
             | Inr subProps \<Rightarrow>
                 Inr (ObjectProperty (fst subProps) (snd subProps) (s_description resolved)))
          else
            Inr (PrimitiveProperty
                   (mapSwaggerTypeToTypeScript (Some (orElse (s_type resolved) ''any''))
                      (s_format resolved))
                   (s_description resolved) (s_enum resolved) (s_example resolved)))"

text \<open>
  The loop of \<open>extractRecordSchema\<close> over \<open>data\<close>, \<open>records\<close>, \<open>items\<close>, \<open>results\<close>: the
  items of the first of these properties that is an array with items.
\<close>

fun firstArrayItems :: "(string \<times> SwaggerSchema) list \<Rightarrow> string list \<Rightarrow> SwaggerSchema option" where
  "firstArrayItems props [] = None"
| "firstArrayItems props (prop # rest) =
     (case map_of props prop of
        None \<Rightarrow> firstArrayItems props rest
      | Some property \<Rightarrow>
          (if s_type property = Some ''array'' then
             (case s_items property of
                None \<Rightarrow> firstArrayItems props rest
              | Some items \<Rightarrow> Some items)
           else firstArrayItems props rest))"

definition extractRecordSchema ::
  "SwaggerSchema \<Rightarrow> SwaggerSpec \<Rightarrow> failure + SwaggerSchema option" where
  "extractRecordSchema schema api =
     (case resolveSchema schema api of
        Inl e \<Rightarrow> Inl e
      | Inr resolved \<Rightarrow>
          (case s_properties resolved of
             None \<Rightarrow> Inr None
           | Some props \<Rightarrow>
               (case firstArrayItems props [''data'', ''records'', ''items'', ''results''] of
                  None \<Rightarrow> Inr None
                | Some items \<Rightarrow>
                    (case resolveSchema items api of
                       Inl e \<Rightarrow> Inl e
                     | Inr r \<Rightarrow> Inr (Some r)))))"

section \<open>The model extractor\<close>

definition requiredOrUndefined :: "string list \<Rightarrow> string list option" where
  "requiredOrUndefined required = (if 0 < length required then Some required else None)"

definition createQueryParamsModel ::
  "SwaggerOperation \<Rightarrow> string \<Rightarrow> ModelDocumentation option" where
  "createQueryParamsModel operation opId =
     (let queryParams = filter (\<lambda>p. p_in p = InQuery) (parametersOf operation) in
      if length queryParams = 0 then None
      else
        Some \<lparr> m_sNo = 0,
               modelName = pascalCase opId @ ''QueryParams'',
               m_properties =
                 fold (\<lambda>param properties.
                         AList.update (p_name param)
                           (PrimitiveProperty (getParameterType param) (p_description param)
                              None None)
                           properties)
                   queryParams [],
               m_required =
                 requiredOrUndefined
                   (map p_name (filter (\<lambda>param. p_required param = Some True) queryParams)),
               m_description = Some (''Query parameters for '' @ opId @ '' operation''),
               usedInOperations = Some opId \<rparr>)"

definition createRequestBodyModel ::
  "nat \<Rightarrow> SwaggerOperation \<Rightarrow> SwaggerSpec \<Rightarrow> failure + ModelDocumentation option" where
  "createRequestBodyModel depth operation api =
     (case op_requestBody operation of
        None \<Rightarrow> Inr None
      | Some requestBody \<Rightarrow>
          if \<not> truthy (op_operationId operation) then Inr None
          else
            (case (case map_of (rb_content requestBody) ''application/json'' of
                     None \<Rightarrow> None
                   | Some jsonContent \<Rightarrow> mt_schema jsonContent) of
               None \<Rightarrow> Inr None
             | Some jsonContentSchema \<Rightarrow>
                 (case resolveSchema jsonContentSchema api of
                    Inl e \<Rightarrow> Inl e
                  | Inr schema \<Rightarrow>
                      (case extractSchemaProperties depth schema api of
                         Inl e \<Rightarrow> Inl e
                       | Inr properties \<Rightarrow>
                           (let opId = orElse (op_operationId operation) [] in
                            Inr (Some \<lparr> m_sNo = 0,
                                        modelName = pascalCase opId @ ''InData'',
                                        m_properties = fst properties,
                                        m_required = requiredOrUndefined (snd properties),
                                        m_description =
                                          Some (''Request body model for '' @ opId @ '' operation''),
                                        usedInOperations = Some opId \<rparr>))))))"

text \<open>The body of the loop of \<open>createResponseModels\<close> over the success responses.\<close>

definition modelsOfResponse ::
  "nat \<Rightarrow> string \<Rightarrow> SwaggerSpec \<Rightarrow> SwaggerResponse \<Rightarrow> failure + ModelDocumentation list" where
  "modelsOfResponse depth opId api response =
     (case jsonSchema response of
        None \<Rightarrow> Inr []
      | Some jsonContentSchema \<Rightarrow>
          (case resolveSchema jsonContentSchema api of
             Inl e \<Rightarrow> Inl e
           | Inr schema \<Rightarrow>
               (case extractSchemaProperties depth schema api of
                  Inl e \<Rightarrow> Inl e
                | Inr properties \<Rightarrow>
                    (let outData =
                           \<lparr> m_sNo = 0,
                             modelName = pascalCase opId @ ''OutData'',
                             m_properties = fst properties,
                             m_required = requiredOrUndefined (snd properties),
                             m_description = Some (''Response model for '' @ opId @ '' operation''),
                             usedInOperations = Some opId \<rparr>
                     in if isPaginatedSchema (Some schema) then
                          (case extractRecordSchema schema api of
                             Inl e \<Rightarrow> Inl e
                           | Inr None \<Rightarrow> Inr [outData]
                           | Inr (Some recordSchema) \<Rightarrow>
                               (case extractSchemaProperties depth recordSchema api of
                                  Inl e \<Rightarrow> Inl e
                                | Inr recordProperties \<Rightarrow>
                                    Inr [outData,
                                         \<lparr> m_sNo = 0,
                                           modelName = pascalCase opId @ ''RecordData'',
                                           m_properties = fst recordProperties,
                                           m_required = requiredOrUndefined (snd recordProperties),
                                           m_description =
                                             Some (''Record model for '' @ opId @ '' paginated response''),
                                           usedInOperations = Some opId \<rparr>]))
                        else Inr [outData]))))"

definition createResponseModels ::
  "nat \<Rightarrow> SwaggerOperation \<Rightarrow> SwaggerSpec \<Rightarrow> failure + ModelDocumentation list" where
  "createResponseModels depth operation api =
     (if \<not> truthy (op_operationId operation) then Inr []
      else
        (let successResponses =
               filter (\<lambda>(status, response). startsWith status ''2'') (op_responses operation)
         in case forEach (\<lambda>(status, response).
                            modelsOfResponse depth (orElse (op_operationId operation) []) api response)
                   successResponses of
              Inl e \<Rightarrow> Inl e
            | Inr models \<Rightarrow> Inr (concat models)))"

text \<open>
  \<open>if (!seenModels.has(model.modelName)) { models.push(model); seenModels.add(...) }\<close>
\<close>

definition pushUnseen ::
  "ModelDocumentation \<Rightarrow> ModelDocumentation list \<times> string set
     \<Rightarrow> ModelDocumentation list \<times> string set" where
  "pushUnseen model st =
     (if modelName model \<in> snd st then st
      else (fst st @ [model], insert (modelName model) (snd st)))"

text \<open>The first block of \<open>extractModelsFromOperation\<close>: the query parameters model.\<close>

definition queryParamsStep ::
  "SwaggerOperation \<Rightarrow> string set \<Rightarrow> ModelDocumentation list \<times> string set" where
  "queryParamsStep operation seenModels =
     (if hasQueryParams operation then
        (let opId = orElse (op_operationId operation) ''unknown'' in
         case createQueryParamsModel operation opId of
           None \<Rightarrow> ([], seenModels)
         | Some queryParamsModel \<Rightarrow> pushUnseen queryParamsModel ([], seenModels))
      else ([], seenModels))"

definition extractModelsFromOperation ::
  "nat \<Rightarrow> SwaggerOperation \<Rightarrow> SwaggerSpec \<Rightarrow> string set
     \<Rightarrow> failure + (ModelDocumentation list \<times> string set)" where
  "extractModelsFromOperation depth operation api seenModels =
     (let st1 = queryParamsStep operation seenModels in
      case (if op_requestBody operation \<noteq> None then
              createRequestBodyModel depth operation api
            else Inr None) of
        Inl e \<Rightarrow> Inl e
      | Inr requestModel \<Rightarrow>
          (let st2 = (case requestModel of None \<Rightarrow> st1 | Some m \<Rightarrow> pushUnseen m st1) in
           case createResponseModels depth operation api of
             Inl e \<Rightarrow> Inl e
           | Inr responseModels \<Rightarrow> Inr (fold pushUnseen responseModels st2)))"

definition standaloneSchemas :: "SwaggerSpec \<Rightarrow> (string \<times> SwaggerSchema) list" where
  "standaloneSchemas api =
     (case (case components api of None \<Rightarrow> None | Some c \<Rightarrow> c_schemas c) of
        Some schemas \<Rightarrow> schemas
      | None \<Rightarrow> (case definitions api of Some schemas \<Rightarrow> schemas | None \<Rightarrow> []))"

fun standaloneLoop ::
  "nat \<Rightarrow> SwaggerSpec \<Rightarrow> (string \<times> SwaggerSchema) list
     \<Rightarrow> ModelDocumentation list \<times> string set
     \<Rightarrow> failure + (ModelDocumentation list \<times> string set)" where
  "standaloneLoop depth api [] st = Inr st"
| "standaloneLoop depth api ((name, schema) # rest) st =
     (let mName = pascalCase name @ ''Data'' in
      if mName \<in> snd st then standaloneLoop depth api rest st
      else
        (case extractSchemaProperties depth schema api of
           Inl e \<Rightarrow> Inl e
         | Inr properties \<Rightarrow>
             standaloneLoop depth api rest
               (fst st @
                  [\<lparr> m_sNo = 0,
                     modelName = mName,
                     m_properties = fst properties,
                     m_required = requiredOrUndefined (snd properties),
                     m_description = Some (orElse (s_description schema) (name @ '' entity model'')),
                     usedInOperations = None \<rparr>],
                insert mName (snd st))))"

definition extractStandaloneModels ::
  "nat \<Rightarrow> SwaggerSpec \<Rightarrow> string set \<Rightarrow> failure + (ModelDocumentation list \<times> string set)" where
  "extractStandaloneModels depth api seenModels =
     standaloneLoop depth api (standaloneSchemas api) ([], seenModels)"

section \<open>The synthesizer\<close>

text \<open>
  The two nested loops of \<open>extractDocumentationData\<close> visit the operations in this order;
  a key of a path item that is no HTTP method is skipped.
\<close>

definition operationsOf :: "SwaggerSpec \<Rightarrow> (string \<times> string \<times> SwaggerOperation) list" where
  "operationsOf api =
     concat (map (\<lambda>(path, pathItem).
                    map (\<lambda>(method, operation). (path, method, operation))
                      (filter (\<lambda>(method, operation). isValidHttpMethod method) pathItem))
               (paths api))"

record extraction =
  x_apis :: "ApiDocumentation list"
  x_models :: "ModelDocumentation list"
  x_seenModels :: "string set"
  x_apiIndex :: nat

fun operationsLoop ::
  "nat \<Rightarrow> SwaggerSpec \<Rightarrow> (string \<times> string \<times> SwaggerOperation) list \<Rightarrow> extraction
     \<Rightarrow> failure + extraction" where
  "operationsLoop depth api [] st = Inr st"
| "operationsLoop depth api ((path, method, operation) # rest) st =
     (let apiDoc = createApiDocumentation (x_apiIndex st) path method operation api in
      case extractModelsFromOperation depth operation api (x_seenModels st) of
        Inl e \<Rightarrow> Inl e
      | Inr operationModels \<Rightarrow>
          operationsLoop depth api rest
            \<lparr> x_apis = x_apis st @ [apiDoc],
              x_models = x_models st @ fst operationModels,
              x_seenModels = snd operationModels,
              x_apiIndex = x_apiIndex st + 1 \<rparr>)"

definition assignNumbers :: "ModelDocumentation list \<Rightarrow> ModelDocumentation list" where
  "assignNumbers models = map (\<lambda>(index, model). model\<lparr>m_sNo := index + 1\<rparr>) (enumerate 0 models)"

definition extractDocumentationData ::
  "nat \<Rightarrow> SwaggerSpec \<Rightarrow> failure + (ApiDocumentation list \<times> ModelDocumentation list)" where
  "extractDocumentationData depth api =
     (case operationsLoop depth api (operationsOf api)
             \<lparr> x_apis = [], x_models = [], x_seenModels = {}, x_apiIndex = 1 \<rparr> of
        Inl e \<Rightarrow> Inl e
      | Inr st \<Rightarrow>
          (case extractStandaloneModels depth api (x_seenModels st) of
             Inl e \<Rightarrow> Inl e
           | Inr standalone \<Rightarrow>
               Inr (x_apis st, assignNumbers (x_models st @ fst standalone))))"

section \<open>Predicates used in the statements\<close>

text \<open>
  Two names are equal case-insensitively when their lower-case forms are equal. A schema
  has a pagination field when one of its top-level property names equals one of
  \<open>paginationFields\<close> case-insensitively.
\<close>

definition sameIgnoringCase :: "string \<Rightarrow> string \<Rightarrow> bool" where
  "sameIgnoringCase a b = (toLowerCase a = toLowerCase b)"

definition hasPaginationField :: "SwaggerSchema \<Rightarrow> bool" where
  "hasPaginationField sch =
     list_ex (\<lambda>(f, _). list_ex (sameIgnoringCase f) paginationFields)
       (entriesOf (s_properties sch))"

text \<open>
  The pagination rule in the words of the specification (section 4.4), to be compared with
  \<open>detectPagination\<close>: a parameter named like one of the six page parameter names, or a
  success response (status beginning with 2) whose JSON schema has a pagination field.
\<close>

definition claimedPaginated :: "SwaggerOperation \<Rightarrow> bool" where
  "claimedPaginated operation =
     (list_ex (\<lambda>p. list_ex (sameIgnoringCase (p_name p)) pageParamNames) (parametersOf operation)
      \<or> list_ex (\<lambda>(status, response).
                   startsWith status ''2'' \<and>
                   (case jsonSchema response of
                      None \<Rightarrow> False
                    | Some sch \<Rightarrow> hasPaginationField sch))
          (op_responses operation))"

text \<open>
  The operation declares a request body with an \<open>application/json\<close> content entry
  (\<open>declaresJsonBody\<close>); the schema which that entry carries, if there is an entry and it
  carries one (\<open>jsonBodySchema\<close>, which is \<open>requestBody?.content['application/json']?.schema\<close>).
\<close>

definition declaresJsonBody :: "SwaggerOperation \<Rightarrow> bool" where
  "declaresJsonBody operation =
     (case op_requestBody operation of
        None \<Rightarrow> False
      | Some requestBody \<Rightarrow> map_of (rb_content requestBody) ''application/json'' \<noteq> None)"

definition jsonBodySchema :: "SwaggerOperation \<Rightarrow> SwaggerSchema option" where
  "jsonBodySchema operation =
     (case op_requestBody operation of
        None \<Rightarrow> None
      | Some requestBody \<Rightarrow>
          (case map_of (rb_content requestBody) ''application/json'' of
             None \<Rightarrow> None
           | Some jsonContent \<Rightarrow> mt_schema jsonContent))"



text \<open>
  The invariants of the seen-set. \<open>fresh seen0 st\<close>: the models of \<open>st\<close> were pushed
  starting from the seen-set \<open>seen0\<close>. \<open>namesSeen st\<close>: every model name of the running
  list is in the seen-set, once.
\<close>

definition fresh :: "string set \<Rightarrow> ModelDocumentation list \<times> string set \<Rightarrow> bool" where
  "fresh seen0 st =
     (distinct (map modelName (fst st)) \<and> modelName ` set (fst st) \<inter> seen0 = {}
      \<and> snd st = seen0 \<union> modelName ` set (fst st))"

definition namesSeen :: "extraction \<Rightarrow> bool" where
  "namesSeen st =
     (distinct (map modelName (x_models st))
      \<and> modelName ` set (x_models st) \<subseteq> x_seenModels st)"

text \<open>
  \<open>listedOperationsExist st\<close>: every operationId that a model of the running list names
  in \<open>usedInOperations\<close> is the operationId of an API record of the running list.
\<close>

definition listedOperationsExist :: "extraction \<Rightarrow> bool" where
  "listedOperationsExist st =
     (\<forall>m \<in> set (x_models st). \<forall>opId. usedInOperations m = Some opId
        \<longrightarrow> opId \<in> operationId ` set (x_apis st))"

section \<open>Example documents\<close>

definition emptySchema :: SwaggerSchema where
  "emptySchema =
     SwaggerSchema None None None None None None None None None None None None None None None
       None None None None"

definition typedSchema :: "string \<Rightarrow> SwaggerSchema" where
  "typedSchema t =
     SwaggerSchema (Some t) None None None None None None None None None None None None None None
       None None None None"

definition refSchema :: "string \<Rightarrow> SwaggerSchema" where
  "refSchema r =
     SwaggerSchema None None None None None None None None (Some r) None None None None None None
       None None None None"

definition objectSchema :: "(string \<times> SwaggerSchema) list \<Rightarrow> string list \<Rightarrow> SwaggerSchema" where
  "objectSchema props req =
     SwaggerSchema (Some ''object'') None (Some props) (Some req) None None None None None None
       None None None None None None None None None"


definition schemaParam :: "string \<Rightarrow> ParamIn \<Rightarrow> string \<Rightarrow> SwaggerParameter" where
  "schemaParam name loc t =
     \<lparr> p_name = name, p_in = loc, p_required = None, p_schema = Some (typedSchema t),
       p_type = None, p_format = None, p_description = None, p_example = None \<rparr>"

definition plainResponse :: SwaggerResponse where
  "plainResponse =
     \<lparr> r_description = ''OK'', r_content = None, r_headers = None, r_schema = None \<rparr>"

definition jsonOnly :: "SwaggerSchema \<Rightarrow> (string \<times> SwaggerMediaType) list" where
  "jsonOnly sch = [(''application/json'', \<lparr> mt_schema = Some sch, mt_examples = None \<rparr>)]"

definition jsonResponse :: "SwaggerSchema \<Rightarrow> SwaggerResponse" where
  "jsonResponse sch = plainResponse\<lparr> r_content := Some (jsonOnly sch) \<rparr>"

definition jsonBody :: "SwaggerSchema \<Rightarrow> SwaggerRequestBody" where
  "jsonBody sch =
     \<lparr> rb_required = None, rb_content = jsonOnly sch, rb_description = None \<rparr>"

definition emptyOperation :: SwaggerOperation where
  "emptyOperation =
     \<lparr> op_operationId = None, op_summary = None, op_description = None, op_tags = None,
       op_parameters = None, op_requestBody = None, op_responses = [(''200'', plainResponse)],
       op_security = None \<rparr>"

definition pathsOnly :: "(string \<times> (string \<times> SwaggerOperation) list) list \<Rightarrow> SwaggerSpec" where
  "pathsOnly ps =
     \<lparr> openapi = Some ''3.0.0'', swagger = None,
       info = \<lparr> i_title = ''Example'', i_version = ''1.0.0'', i_description = None \<rparr>,
       servers = None, paths = ps, components = None, definitions = None, parameters = None \<rparr>"

definition schemasOnly :: "(string \<times> SwaggerSchema) list \<Rightarrow> SwaggerComponents" where
  "schemasOnly table = \<lparr> c_schemas = Some table, c_parameters = None, c_responses = None \<rparr>"

text \<open>\<open>GET /items\<close> with the query parameters \<open>page\<close> and \<open>limit\<close> and no operationId.\<close>

definition c1_operation :: SwaggerOperation where
  "c1_operation =
     emptyOperation\<lparr> op_parameters :=
       Some [schemaParam ''page'' InQuery ''integer'', schemaParam ''limit'' InQuery ''integer''] \<rparr>"

definition c1_spec :: SwaggerSpec where
  "c1_spec = pathsOnly [(''/items'', [(''get'', c1_operation)])]"

text \<open>A \<open>404\<close> response whose JSON schema has a property \<open>page\<close>; no parameters.\<close>

definition c2_notFound :: SwaggerOperation where
  "c2_notFound =
     emptyOperation\<lparr> op_operationId := Some ''getItem'',
       op_responses :=
         [(''404'', jsonResponse (objectSchema [(''page'', typedSchema ''integer'')] []))] \<rparr>"

definition c2_limit :: SwaggerOperation where
  "c2_limit = emptyOperation\<lparr> op_parameters := Some [schemaParam ''Limit'' InQuery ''integer''] \<rparr>"

text \<open>\<open>GET /users\<close> with one query parameter and no operationId.\<close>

definition c3_spec :: SwaggerSpec where
  "c3_spec =
     pathsOnly [(''/users'',
       [(''get'', emptyOperation\<lparr> op_parameters := Some [schemaParam ''role'' InQuery ''string''] \<rparr>)])]"

text \<open>Two paths whose synthesized operationIds collide, and two operations that declare theirs.\<close>

definition c4_spec :: SwaggerSpec where
  "c4_spec =
     pathsOnly [(''/order-items'', [(''get'', emptyOperation)]),
                (''/orderitems'', [(''get'', emptyOperation)])]"

definition c4_declared :: SwaggerSpec where
  "c4_declared =
     pathsOnly [(''/items'',
       [(''get'', emptyOperation\<lparr> op_operationId := Some ''listItems'' \<rparr>),
        (''post'', emptyOperation\<lparr> op_operationId := Some ''createItem'' \<rparr>)])]"

text \<open>
  One operation with two success responses, and a component schema whose derived model
  name is the one of the operation's response model.
\<close>

definition c5_spec :: SwaggerSpec where
  "c5_spec =
     (pathsOnly
        [(''/items'',
           [(''get'', emptyOperation\<lparr> op_operationId := Some ''listItems'',
                op_responses :=
                  [(''200'', jsonResponse (refSchema ''#/components/schemas/Item'')),
                   (''206'', jsonResponse (refSchema ''#/components/schemas/Item''))] \<rparr>)])])
     \<lparr> components :=
         Some (schemasOnly
           [(''Item'', objectSchema [(''id'', typedSchema ''string'')] [''id'']),
            (''list_items_out'', objectSchema [] [])]) \<rparr>"




text \<open>A request body whose schema points at a component that does not exist.\<close>

definition c7_operation :: SwaggerOperation where
  "c7_operation =
     emptyOperation\<lparr> op_operationId := Some ''createPet'',
       op_requestBody := Some (jsonBody (refSchema ''#/components/schemas/NewPet'')) \<rparr>"

definition c7_spec :: SwaggerSpec where
  "c7_spec = pathsOnly [(''/pets'', [(''post'', c7_operation)])]"


text \<open>The same operation in a document with components, but without the schema \<open>NewPet\<close>.\<close>

definition c7_otherSchemas :: SwaggerSpec where
  "c7_otherSchemas =
     c7_spec\<lparr> components :=
       Some (schemasOnly [(''Pet'', objectSchema [(''id'', typedSchema ''string'')] [''id''])]) \<rparr>"

text \<open>A JSON request body, without and with a declared operationId.\<close>

definition c8_anonymous :: SwaggerOperation where
  "c8_anonymous =
     emptyOperation\<lparr> op_requestBody :=
       Some (jsonBody (objectSchema [(''name'', typedSchema ''string'')] [])) \<rparr>"

definition c8_named :: SwaggerOperation where
  "c8_named = c8_anonymous\<lparr> op_operationId := Some ''createItem'' \<rparr>"

definition c8_spec :: SwaggerSpec where
  "c8_spec = pathsOnly [(''/items'', [(''post'', c8_anonymous)])]"

text \<open>A declared operationId and an \<open>application/json\<close> content entry without a schema.\<close>

definition c8_schemaless :: SwaggerOperation where
  "c8_schemaless =
     emptyOperation\<lparr> op_operationId := Some ''ping'',
       op_requestBody :=
         Some \<lparr> rb_required = None,
                rb_content = [(''application/json'', \<lparr> mt_schema = None, mt_examples = None \<rparr>)],
                rb_description = None \<rparr> \<rparr>"

text \<open>A path parameter declared with \<open>required: false\<close>.\<close>

definition c9_operation :: SwaggerOperation where
  "c9_operation =
     emptyOperation\<lparr> op_operationId := Some ''getReport'',
       op_parameters :=
         Some [(schemaParam ''format'' InPath ''string'')
                 \<lparr> p_required := Some False, p_description := Some ''Report format'' \<rparr>] \<rparr>"

text \<open>An operation whose only response with a schema is an error response.\<close>

definition c10_operation :: SwaggerOperation where
  "c10_operation =
     emptyOperation\<lparr> op_operationId := Some ''getItem'',
       op_responses :=
         [(''404'', jsonResponse (objectSchema [(''message'', typedSchema ''string'')] []))] \<rparr>"

definition c10_spec :: SwaggerSpec where
  "c10_spec = pathsOnly [(''/items/{id}'', [(''get'', c10_operation)])]"

section \<open>Lemmas about the helpers\<close>







lemma fresh_start: "fresh seen0 ([], seen0)"
  by (simp add: fresh_def)

lemma fresh_pushUnseen: "fresh seen0 st \<Longrightarrow> fresh seen0 (pushUnseen m st)"
  by (auto simp: fresh_def pushUnseen_def)

lemma fresh_fold_pushUnseen: "fresh seen0 st \<Longrightarrow> fresh seen0 (fold pushUnseen ms st)"
  by (induction ms arbitrary: st) (auto simp: fresh_pushUnseen)

lemma fresh_queryParamsStep: "fresh seen0 (queryParamsStep operation seen0)"
  by (auto simp: queryParamsStep_def Let_def fresh_start fresh_pushUnseen split: option.splits)

lemma extractModelsFromOperation_Inr:
  assumes "extractModelsFromOperation depth operation api seen0 = Inr st"
  shows "\<exists>requestModel responseModels.
           (if op_requestBody operation \<noteq> None then createRequestBodyModel depth operation api
            else Inr None) = Inr requestModel
         \<and> createResponseModels depth operation api = Inr responseModels
         \<and> st = fold pushUnseen responseModels
                  (case requestModel of
                     None \<Rightarrow> queryParamsStep operation seen0
                   | Some m \<Rightarrow> pushUnseen m (queryParamsStep operation seen0))"
  using assms by (auto simp: extractModelsFromOperation_def Let_def split: sum.splits)

lemma fresh_extractModelsFromOperation:
  assumes "extractModelsFromOperation depth operation api seen0 = Inr st"
  shows "fresh seen0 st"
proof -
  from extractModelsFromOperation_Inr[OF assms] obtain requestModel responseModels where
    st: "st = fold pushUnseen responseModels
                (case requestModel of
                   None \<Rightarrow> queryParamsStep operation seen0
                 | Some m \<Rightarrow> pushUnseen m (queryParamsStep operation seen0))"
    by blast
  have "fresh seen0 (case requestModel of
                       None \<Rightarrow> queryParamsStep operation seen0
                     | Some m \<Rightarrow> pushUnseen m (queryParamsStep operation seen0))"
    by (auto simp: fresh_queryParamsStep fresh_pushUnseen split: option.splits)
  then show ?thesis unfolding st by (rule fresh_fold_pushUnseen)
qed

lemma fresh_standaloneLoop:
  "standaloneLoop depth api schemas st = Inr st' \<Longrightarrow> fresh seen0 st \<Longrightarrow> fresh seen0 st'"
proof (induction schemas arbitrary: st)
  case Nil
  then show ?case by simp
next
  case (Cons entry schemas)
  obtain name schema where entry: "entry = (name, schema)" by (cases entry)
  show ?case
  proof (cases "pascalCase name @ ''Data'' \<in> snd st")
    case True
    with Cons entry show ?thesis by (simp add: Let_def)
  next
    case False
    with Cons.prems(1) entry obtain properties where
      rest: "standaloneLoop depth api schemas
               (fst st @
                  [\<lparr> m_sNo = 0,
                     modelName = pascalCase name @ ''Data'',
                     m_properties = fst properties,
                     m_required = requiredOrUndefined (snd properties),
                     m_description = Some (orElse (s_description schema) (name @ '' entity model'')),
                     usedInOperations = None \<rparr>],
                insert (pascalCase name @ ''Data'') (snd st)) = Inr st'"
      by (auto simp: Let_def split: sum.splits)
    have "fresh seen0 (fst st @
                  [\<lparr> m_sNo = 0,
                     modelName = pascalCase name @ ''Data'',
                     m_properties = fst properties,
                     m_required = requiredOrUndefined (snd properties),
                     m_description = Some (orElse (s_description schema) (name @ '' entity model'')),
                     usedInOperations = None \<rparr>],
                insert (pascalCase name @ ''Data'') (snd st))"
      using Cons.prems(2) False by (auto simp: fresh_def)
    with Cons.IH rest show ?thesis by blast
  qed
qed

lemma namesSeen_operationsLoop:
  "operationsLoop depth api ops st = Inr st' \<Longrightarrow> namesSeen st \<Longrightarrow> namesSeen st'"
proof (induction ops arbitrary: st)
  case Nil
  then show ?case by simp
next
  case (Cons entry ops)
  obtain path verb operation where entry: "entry = (path, verb, operation)"
    by (cases entry) auto
  from Cons.prems(1) entry obtain operationModels where
    om: "extractModelsFromOperation depth operation api (x_seenModels st) = Inr operationModels"
    and rest: "operationsLoop depth api ops
            \<lparr> x_apis = x_apis st @ [createApiDocumentation (x_apiIndex st) path verb operation api],
              x_models = x_models st @ fst operationModels,
              x_seenModels = snd operationModels,
              x_apiIndex = x_apiIndex st + 1 \<rparr> = Inr st'"
    by (auto simp: Let_def split: sum.splits)
  have "fresh (x_seenModels st) operationModels"
    using om by (rule fresh_extractModelsFromOperation)
  with Cons.prems(2) have "namesSeen
            \<lparr> x_apis = x_apis st @ [createApiDocumentation (x_apiIndex st) path verb operation api],
              x_models = x_models st @ fst operationModels,
              x_seenModels = snd operationModels,
              x_apiIndex = x_apiIndex st + 1 \<rparr>"
    by (auto simp: namesSeen_def fresh_def)
  with Cons.IH rest show ?case by blast
qed

lemma modelName_assignNumbers: "map modelName (assignNumbers models) = map modelName models"
proof -
  have "map modelName (map (\<lambda>(index, model). model\<lparr>m_sNo := index + 1\<rparr>) (enumerate n models))
        = map modelName models" for n
    by (induction models arbitrary: n) auto
  then show ?thesis by (simp add: assignNumbers_def)
qed

lemma apis_operationsLoop:
  "operationsLoop depth api ops st = Inr st' \<Longrightarrow>
     map operationId (x_apis st')
     = map operationId (x_apis st)
       @ map (\<lambda>(path, verb, operation).
                orElse (op_operationId operation) (generateOperationId verb path)) ops"
proof (induction ops arbitrary: st)
  case Nil
  then show ?case by simp
next
  case (Cons entry ops)
  obtain path verb operation where entry: "entry = (path, verb, operation)"
    by (cases entry) auto
  from Cons.prems entry obtain operationModels where
    rest: "operationsLoop depth api ops
            \<lparr> x_apis = x_apis st @ [createApiDocumentation (x_apiIndex st) path verb operation api],
              x_models = x_models st @ fst operationModels,
              x_seenModels = snd operationModels,
              x_apiIndex = x_apiIndex st + 1 \<rparr> = Inr st'"
    by (auto simp: Let_def split: sum.splits)
  have "operationId (createApiDocumentation (x_apiIndex st) path verb operation api)
        = orElse (op_operationId operation) (generateOperationId verb path)"
    by (simp add: createApiDocumentation_def Let_def)
  with Cons.IH[OF rest] entry show ?case by simp
qed

lemma apis_extractDocumentationData:
  assumes "extractDocumentationData depth api = Inr (apis, models)"
  shows "map operationId apis
         = map (\<lambda>(path, verb, operation).
                  orElse (op_operationId operation) (generateOperationId verb path))
             (operationsOf api)"
proof -
  from assms obtain st where
    loop: "operationsLoop depth api (operationsOf api)
             \<lparr> x_apis = [], x_models = [], x_seenModels = {}, x_apiIndex = 1 \<rparr> = Inr st"
    and apis: "apis = x_apis st"
    by (auto simp: extractDocumentationData_def split: sum.splits)
  from apis_operationsLoop[OF loop] apis show ?thesis by simp
qed

lemma forEach_member:
  "forEach f xs = Inr ys \<Longrightarrow> y \<in> set ys \<Longrightarrow> \<exists>x \<in> set xs. f x = Inr y"
proof (induction xs arbitrary: ys)
  case Nil
  then show ?case by simp
next
  case (Cons x xs)
  then show ?case by (auto split: sum.splits)
qed

section \<open>The depth limit\<close>

text \<open>
  The depth limit decides only whether the call fails with \<open>RangeError\<close>: a result that
  is returned under one limit is returned under every larger one.
\<close>

lemma forEach_cong_Inr:
  "forEach f xs = Inr ys \<Longrightarrow> (\<And>x y. x \<in> set xs \<Longrightarrow> f x = Inr y \<Longrightarrow> g x = Inr y)
   \<Longrightarrow> forEach g xs = Inr ys"
proof (induction xs arbitrary: ys)
  case Nil
  then show ?case by simp
next
  case (Cons x xs)
  from Cons.prems(1) obtain y ys' where
    y: "f x = Inr y" and ys': "forEach f xs = Inr ys'" and ys: "ys = y # ys'"
    by (auto split: sum.splits)
  have "g x = Inr y" using Cons.prems(2)[of x y] y by simp
  moreover have "forEach g xs = Inr ys'"
    using Cons.IH[OF ys'] Cons.prems(2) by simp
  ultimately show ?case using ys by simp
qed

lemma depth_mono_schema:
  "(\<forall>schema r. extractSchemaProperties n schema api = Inr r
       \<longrightarrow> extractSchemaProperties (n + k) schema api = Inr r)
   \<and> (\<forall>schema p. convertSchemaToProperty n schema api = Inr p
       \<longrightarrow> convertSchemaToProperty (n + k) schema api = Inr p)"
proof (induction n)
  case 0
  show ?case by simp
next
  case (Suc n)
  from Suc have IHe: "extractSchemaProperties n schema api = Inr r
      \<Longrightarrow> extractSchemaProperties (n + k) schema api = Inr r" for schema r by blast
  from Suc have IHc: "convertSchemaToProperty n schema api = Inr p
      \<Longrightarrow> convertSchemaToProperty (n + k) schema api = Inr p" for schema p by blast
  show ?case
  proof (intro conjI allI impI)
    fix schema r
    assume "extractSchemaProperties (Suc n) schema api = Inr r"
    then obtain own subs where
      own: "forEach (\<lambda>(propName, propSchema).
                      case convertSchemaToProperty n propSchema api of
                        Inl e \<Rightarrow> Inl e
                      | Inr p \<Rightarrow> Inr (propName, p))
             (entriesOf (s_properties schema)) = Inr own"
      and subs: "forEach (\<lambda>subSchema.
                           case resolveSchema subSchema api of
                             Inl e \<Rightarrow> Inl e
                           | Inr resolved \<Rightarrow> extractSchemaProperties n resolved api)
                  (listOf (s_allOf schema)) = Inr subs"
      and r: "r = (foldl (\<lambda>properties subProps. assign properties (fst subProps))
                     (assign [] own) subs,
                   uniq (listOf (s_required schema) @ concat (map snd subs)))"
      by (auto split: sum.splits)
    have own': "forEach (\<lambda>(propName, propSchema).
                      case convertSchemaToProperty (n + k) propSchema api of
                        Inl e \<Rightarrow> Inl e
                      | Inr p \<Rightarrow> Inr (propName, p))
             (entriesOf (s_properties schema)) = Inr own"
    proof (rule forEach_cong_Inr[OF own])
      fix x y
      assume fx: "(case x of (propName, propSchema) \<Rightarrow>
                     case convertSchemaToProperty n propSchema api of
                       Inl e \<Rightarrow> Inl e
                     | Inr p \<Rightarrow> Inr (propName, p)) = Inr y"
      obtain propName propSchema where x: "x = (propName, propSchema)" by (cases x)
      from fx x obtain p where p: "convertSchemaToProperty n propSchema api = Inr p"
        and y: "y = (propName, p)"
        by (auto split: sum.splits)
      from IHc[OF p] x y
      show "(case x of (propName, propSchema) \<Rightarrow>
               case convertSchemaToProperty (n + k) propSchema api of
                 Inl e \<Rightarrow> Inl e
               | Inr p \<Rightarrow> Inr (propName, p)) = Inr y"
        by simp
    qed
    have subs': "forEach (\<lambda>subSchema.
                           case resolveSchema subSchema api of
                             Inl e \<Rightarrow> Inl e
                           | Inr resolved \<Rightarrow> extractSchemaProperties (n + k) resolved api)
                  (listOf (s_allOf schema)) = Inr subs"
      by (rule forEach_cong_Inr[OF subs]) (auto split: sum.splits dest: IHe)
    show "extractSchemaProperties (Suc n + k) schema api = Inr r"
      using own' subs' r by simp
  next
    fix schema p
    assume "convertSchemaToProperty (Suc n) schema api = Inr p"
    then show "convertSchemaToProperty (Suc n + k) schema api = Inr p"
      by (auto split: sum.splits option.splits if_splits dest: IHc IHe)
  qed
qed

lemma extractSchemaProperties_mono:
  "extractSchemaProperties n schema api = Inr r \<Longrightarrow> n \<le> m
   \<Longrightarrow> extractSchemaProperties m schema api = Inr r"
proof -
  assume r: "extractSchemaProperties n schema api = Inr r" and le: "n \<le> m"
  from depth_mono_schema[of n api "m - n"]
  have "extractSchemaProperties n schema api = Inr r
        \<longrightarrow> extractSchemaProperties (n + (m - n)) schema api = Inr r"
    by blast
  with r le show ?thesis by simp
qed

lemma createRequestBodyModel_mono:
  "createRequestBodyModel n operation api = Inr r \<Longrightarrow> n \<le> m
   \<Longrightarrow> createRequestBodyModel m operation api = Inr r"
  by (auto simp: createRequestBodyModel_def Let_def
        split: option.splits if_splits sum.splits dest: extractSchemaProperties_mono)

lemma modelsOfResponse_mono:
  "modelsOfResponse n opId api response = Inr r \<Longrightarrow> n \<le> m
   \<Longrightarrow> modelsOfResponse m opId api response = Inr r"
  by (auto simp: modelsOfResponse_def Let_def
        split: option.splits if_splits sum.splits dest: extractSchemaProperties_mono)

lemma createResponseModels_mono:
  assumes "createResponseModels n operation api = Inr r" and "n \<le> m"
  shows "createResponseModels m operation api = Inr r"
proof (cases "truthy (op_operationId operation)")
  case False
  with assms show ?thesis by (simp add: createResponseModels_def)
next
  case True
  with assms(1) obtain models where
    fe: "forEach (\<lambda>(status, response).
                    modelsOfResponse n (orElse (op_operationId operation) []) api response)
           (filter (\<lambda>(status, response). startsWith status ''2'') (op_responses operation))
         = Inr models"
    and r: "r = concat models"
    by (auto simp: createResponseModels_def Let_def split: sum.splits)
  have "forEach (\<lambda>(status, response).
                    modelsOfResponse m (orElse (op_operationId operation) []) api response)
           (filter (\<lambda>(status, response). startsWith status ''2'') (op_responses operation))
         = Inr models"
    by (rule forEach_cong_Inr[OF fe]) (auto dest: modelsOfResponse_mono[OF _ assms(2)])
  with True r show ?thesis by (simp add: createResponseModels_def Let_def)
qed

lemma extractModelsFromOperation_mono:
  assumes "extractModelsFromOperation n operation api seen0 = Inr st" and "n \<le> m"
  shows "extractModelsFromOperation m operation api seen0 = Inr st"
proof -
  from extractModelsFromOperation_Inr[OF assms(1)] obtain requestModel responseModels where
    rm: "(if op_requestBody operation \<noteq> None then createRequestBodyModel n operation api
          else Inr None) = Inr requestModel"
    and rms: "createResponseModels n operation api = Inr responseModels"
    and st: "st = fold pushUnseen responseModels
                  (case requestModel of
                     None \<Rightarrow> queryParamsStep operation seen0
                   | Some m \<Rightarrow> pushUnseen m (queryParamsStep operation seen0))"
    by blast
  from rm have "(if op_requestBody operation \<noteq> None then createRequestBodyModel m operation api
          else Inr None) = Inr requestModel"
    using createRequestBodyModel_mono[OF _ assms(2)] by (auto split: if_splits)
  moreover from rms have "createResponseModels m operation api = Inr responseModels"
    using assms(2) by (rule createResponseModels_mono)
  ultimately show ?thesis
    using st by (simp add: extractModelsFromOperation_def Let_def)
qed

lemma operationsLoop_mono:
  "operationsLoop n api ops st = Inr st' \<Longrightarrow> n \<le> m \<Longrightarrow> operationsLoop m api ops st = Inr st'"
proof (induction ops arbitrary: st)
  case Nil
  then show ?case by simp
next
  case (Cons entry ops)
  obtain path verb operation where entry: "entry = (path, verb, operation)"
    by (cases entry) auto
  from Cons.prems(1) entry obtain operationModels where
    om: "extractModelsFromOperation n operation api (x_seenModels st) = Inr operationModels"
    and rest: "operationsLoop n api ops
            \<lparr> x_apis = x_apis st @ [createApiDocumentation (x_apiIndex st) path verb operation api],
              x_models = x_models st @ fst operationModels,
              x_seenModels = snd operationModels,
              x_apiIndex = x_apiIndex st + 1 \<rparr> = Inr st'"
    by (auto simp: Let_def split: sum.splits)
  from om Cons.prems(2)
  have "extractModelsFromOperation m operation api (x_seenModels st) = Inr operationModels"
    by (rule extractModelsFromOperation_mono)
  with Cons.IH[OF rest Cons.prems(2)] entry show ?case by (simp add: Let_def)
qed

lemma standaloneLoop_mono:
  "standaloneLoop n api schemas st = Inr st' \<Longrightarrow> n \<le> m
   \<Longrightarrow> standaloneLoop m api schemas st = Inr st'"
proof (induction schemas arbitrary: st)
  case Nil
  then show ?case by simp
next
  case (Cons entry schemas)
  obtain name schema where entry: "entry = (name, schema)" by (cases entry)
  show ?case
  proof (cases "pascalCase name @ ''Data'' \<in> snd st")
    case True
    with Cons entry show ?thesis by (simp add: Let_def)
  next
    case False
    with Cons.prems(1) entry obtain properties where
      e: "extractSchemaProperties n schema api = Inr properties"
      and rest: "standaloneLoop n api schemas
               (fst st @
                  [\<lparr> m_sNo = 0,
                     modelName = pascalCase name @ ''Data'',
                     m_properties = fst properties,
                     m_required = requiredOrUndefined (snd properties),
                     m_description = Some (orElse (s_description schema) (name @ '' entity model'')),
                     usedInOperations = None \<rparr>],
                insert (pascalCase name @ ''Data'') (snd st)) = Inr st'"
      by (auto simp: Let_def split: sum.splits)
    from e Cons.prems(2) have "extractSchemaProperties m schema api = Inr properties"
      by (rule extractSchemaProperties_mono)
    with Cons.IH[OF rest Cons.prems(2)] False entry show ?thesis by (simp add: Let_def)
  qed
qed

lemma extractDocumentationData_mono:
  assumes "extractDocumentationData n api = Inr r" and "n \<le> m"
  shows "extractDocumentationData m api = Inr r"
proof -
  from assms(1) obtain st standalone where
    loop: "operationsLoop n api (operationsOf api)
             \<lparr> x_apis = [], x_models = [], x_seenModels = {}, x_apiIndex = 1 \<rparr> = Inr st"
    and sa: "standaloneLoop n api (standaloneSchemas api) ([], x_seenModels st) = Inr standalone"
    and r: "r = (x_apis st, assignNumbers (x_models st @ fst standalone))"
    by (auto simp: extractDocumentationData_def extractStandaloneModels_def split: sum.splits)
  from operationsLoop_mono[OF loop assms(2)] standaloneLoop_mono[OF sa assms(2)] r
  show ?thesis
    by (simp add: extractDocumentationData_def extractStandaloneModels_def)
qed

section \<open>Model names\<close>

text \<open>
  Claim C5. For every specification, the \<open>modelName\<close> values of the records in the models
  array returned by one synthesis call are pairwise distinct: a name that has been emitted
  is in the seen-set, and no later operation, response or standalone component schema
  emits a record with it again.
\<close>

theorem model_names_distinct:
  assumes "extractDocumentationData depth api = Inr (apis, models)"
  shows "distinct (map modelName models)"
proof -
  from assms obtain st standalone where
    loop: "operationsLoop depth api (operationsOf api)
             \<lparr> x_apis = [], x_models = [], x_seenModels = {}, x_apiIndex = 1 \<rparr> = Inr st"
    and sa: "extractStandaloneModels depth api (x_seenModels st) = Inr standalone"
    and models: "models = assignNumbers (x_models st @ fst standalone)"
    by (auto simp: extractDocumentationData_def split: sum.splits)
  have "namesSeen \<lparr> x_apis = [], x_models = [], x_seenModels = {}, x_apiIndex = 1 \<rparr>"
    by (simp add: namesSeen_def)
  with loop have ns: "namesSeen st" by (rule namesSeen_operationsLoop)
  have "fresh (x_seenModels st) standalone"
    using sa fresh_start unfolding extractStandaloneModels_def by (rule fresh_standaloneLoop)
  with ns have "distinct (map modelName (x_models st @ fst standalone))"
    by (auto simp: namesSeen_def fresh_def)
  then show ?thesis by (simp add: models modelName_assignNumbers)
qed

text \<open>
  The document \<open>c5_spec\<close> has two success responses that both give \<open>ListItemsOutData\<close>
  and a component schema \<open>list_items_out\<close> with the same derived name: one record with
  that name is returned.
\<close>

theorem model_names_distinct_witness:
  "\<exists>apis models. extractDocumentationData 3 c5_spec = Inr (apis, models)
      \<and> map modelName models = [''ListItemsOutData'', ''ItemData'']
      \<and> distinct (map modelName models)"
proof -
  have "map_sum id (\<lambda>r. map modelName (snd r)) (extractDocumentationData 3 c5_spec)
        = Inr [''ListItemsOutData'', ''ItemData'']"
    by code_simp
  then obtain apis models where
    r: "extractDocumentationData 3 c5_spec = Inr (apis, models)"
    and n: "map modelName models = [''ListItemsOutData'', ''ItemData'']"
    by (cases "extractDocumentationData 3 c5_spec") auto
  have "distinct (map modelName models)"
    using r by (rule model_names_distinct)
  with r n show ?thesis by (intro exI[of _ apis] exI[of _ models]) simp
qed

section \<open>Operations without a declared operationId\<close>

text \<open>
  Claim C1. For \<open>GET /items\<close> with the query parameters \<open>page\<close> and \<open>limit\<close> and no
  declared operationId, the claim expects the operationId \<open>getItems\<close>, \<open>isPaginated\<close> and
  a model named \<open>GetItemsQueryParams\<close>. The source returns the API record as claimed, with
  \<open>queryParamsRef = GetItemsQueryParams\<close>, but names the only model
  \<open>UnknownQueryParams\<close>: \<open>extractModelsFromOperation\<close> falls back to the operationId
  \<open>unknown\<close> where \<open>createApiDocumentation\<close> synthesizes one.
\<close>

theorem c1_query_model_named_unknown:
  "extractDocumentationData 1 c1_spec
   = Inr ([\<lparr> sNo = 1, endpoint = ''/items'', httpMethod = ''get'', tag = ''default'',
               operationId = ''getItems'', summary = ''get /items'', pathParams = None,
               queryParamsRef = Some ''GetItemsQueryParams'', requestBodyRef = None,
               responseBodyRef = None, isPaginated = True, requiresAuth = False,
               businessPurpose =
                 ''Retrieve default data for default management functionality'' \<rparr>],
          [\<lparr> m_sNo = 1, modelName = ''UnknownQueryParams'',
               m_properties =
                 [(''page'', PrimitiveProperty ''number'' None None None),
                  (''limit'', PrimitiveProperty ''number'' None None None)],
               m_required = None,
               m_description = Some ''Query parameters for unknown operation'',
               usedInOperations = Some ''unknown'' \<rparr>])"
  by code_simp

text \<open>
  Claim C3. Referential integrity of \<open>usedInOperations\<close> fails on the same fallback: for
  \<open>GET /users\<close> with a query parameter and no declared operationId the model lists the
  operation \<open>unknown\<close>, and the only API record has the operationId \<open>getUsers\<close>.
\<close>

theorem c3_model_used_in_unknown_operation:
  "map_sum id (\<lambda>r. (map operationId (fst r), map usedInOperations (snd r)))
     (extractDocumentationData 1 c3_spec)
   = Inr ([''getUsers''], [Some ''unknown''])"
  by code_simp

section \<open>OperationIds\<close>

text \<open>
  Claim C4, as stated: the operationIds of the returned API records are pairwise distinct.
  The paths \<open>/order-items\<close> and \<open>/orderitems\<close>, each with a \<open>get\<close> operation that declares
  no operationId, both get the synthesized operationId \<open>getOrderitems\<close>.
\<close>

theorem c4_synthesized_ids_collide:
  "map_sum id (\<lambda>r. (map operationId (fst r), distinct (map operationId (fst r))))
     (extractDocumentationData 1 c4_spec)
   = Inr ([''getOrderitems'', ''getOrderitems''], False)"
  by code_simp

text \<open>
  Claim C4, amended. The operationId of every returned API record is the declared one, or
  the synthesized one where none is declared, in the order of the traversal; so when every
  operation of the document declares an operationId and the declared ones are pairwise
  distinct, the returned operationIds are pairwise distinct.
\<close>

theorem operationIds_declared_distinct:
  assumes "extractDocumentationData depth api = Inr (apis, models)"
  shows "map operationId apis
         = map (\<lambda>(path, verb, operation).
                  orElse (op_operationId operation) (generateOperationId verb path))
             (operationsOf api)
         \<and> ((\<forall>(path, verb, operation) \<in> set (operationsOf api). truthy (op_operationId operation))
              \<longrightarrow> distinct (map (\<lambda>(path, verb, operation). op_operationId operation)
                              (operationsOf api))
              \<longrightarrow> distinct (map operationId apis))"
proof (intro conjI impI)
  show ids: "map operationId apis
         = map (\<lambda>(path, verb, operation).
                  orElse (op_operationId operation) (generateOperationId verb path))
             (operationsOf api)"
    using assms by (rule apis_extractDocumentationData)
  assume declared: "\<forall>(path, verb, operation) \<in> set (operationsOf api).
                      truthy (op_operationId operation)"
    and dist: "distinct (map (\<lambda>(path, verb, operation). op_operationId operation)
                           (operationsOf api))"
  define declaredIds where
    "declaredIds = map (\<lambda>(path, verb, operation). op_operationId operation) (operationsOf api)"
  have "map operationId apis = map (\<lambda>v. orElse v []) declaredIds"
    unfolding ids declaredIds_def using declared
    by (auto simp: orElse_def truthy_def split: option.splits)
  moreover have "inj_on (\<lambda>v. orElse v []) (set declaredIds)"
    unfolding declaredIds_def using declared
    by (auto simp: inj_on_def orElse_def truthy_def split: option.splits)
  moreover have "distinct declaredIds"
    unfolding declaredIds_def using dist .
  ultimately show "distinct (map operationId apis)"
    by (simp add: distinct_map)
qed

theorem operationIds_declared_distinct_witness:
  "\<exists>apis models. extractDocumentationData 1 c4_declared = Inr (apis, models)
      \<and> map operationId apis = [''listItems'', ''createItem'']
      \<and> distinct (map operationId apis)"
proof -
  have ops: "map (\<lambda>(path, verb, operation). op_operationId operation) (operationsOf c4_declared)
             = [Some ''listItems'', Some ''createItem'']"
    by code_simp
  have declared: "\<forall>(path, verb, operation) \<in> set (operationsOf c4_declared).
                    truthy (op_operationId operation)"
    by code_simp
  have "map_sum id (\<lambda>r. map operationId (fst r)) (extractDocumentationData 1 c4_declared)
        = Inr [''listItems'', ''createItem'']"
    by code_simp
  then obtain apis models where
    r: "extractDocumentationData 1 c4_declared = Inr (apis, models)"
    and n: "map operationId apis = [''listItems'', ''createItem'']"
    by (cases "extractDocumentationData 1 c4_declared") auto
  have "distinct (map (\<lambda>(path, verb, operation). op_operationId operation)
                    (operationsOf c4_declared))"
    unfolding ops by simp
  with operationIds_declared_distinct[OF r] declared
  have "distinct (map operationId apis)" by blast
  with r n show ?thesis by (intro exI[of _ apis] exI[of _ models]) simp
qed

section \<open>Path parameters\<close>

text \<open>
  Claim C9. For a path segment with a matching declared path parameter the entry is to
  record the parameter's declared required flag. The source computes the flag as
  \<open>param.required || true\<close>, which is \<open>true\<close> whatever is declared: the parameter
  \<open>format\<close> of \<open>c9_operation\<close> declares \<open>required: false\<close> and is recorded as required.
  The mapped type and the description are recorded as claimed.
\<close>

theorem c9_optional_path_parameter_recorded_required:
  "map (\<lambda>p. (p_name p, p_in p, p_required p)) (parametersOf c9_operation)
     = [(''format'', InPath, Some False)]
   \<and> extractPathParameters ''/reports/{format}'' c9_operation (pathsOnly [])
     = Some [(''format'', \<lparr> pp_type = ''string'', pp_required = True,
                            pp_description = Some ''Report format'' \<rparr>)]"
  by code_simp

section \<open>Pagination\<close>

lemma toLowerCase_idem: "toLowerCase (toLowerCase n) = toLowerCase n"
proof -
  have "lowerChar (lowerChar c) = lowerChar c" for c
    by (simp add: lowerChar_def upperLetters_def lowerLetters_def)
  then show ?thesis by (simp add: toLowerCase_def)
qed

lemma isPaginatedSchema_iff: "isPaginatedSchema (Some sch) = hasPaginationField sch"
proof (cases "s_properties sch")
  case None
  then show ?thesis
    by (simp add: isPaginatedSchema_def hasPaginationField_def entriesOf_def)
next
  case (Some props)
  have "(\<exists>field \<in> set paginationFields. toLowerCase field \<in> (\<lambda>(f, _). toLowerCase f) ` set props)
        = (\<exists>entry \<in> set props. case entry of (f, _) \<Rightarrow>
             \<exists>field \<in> set paginationFields. toLowerCase f = toLowerCase field)"
    by (auto simp: split_def image_iff) (metis fst_conv)+
  with Some show ?thesis
    by (simp add: isPaginatedSchema_def hasPaginationField_def entriesOf_def Let_def
          list_ex_iff sameIgnoringCase_def)
qed

lemma paginated_response_iff:
  "list_ex (\<lambda>(status, response). isPaginatedSchema (responseSchema response)) responses
   = (\<exists>(status, response) \<in> set responses.
        \<exists>sch. responseSchema response = Some sch \<and> hasPaginationField sch)"
proof -
  have "isPaginatedSchema v = (\<exists>sch. v = Some sch \<and> hasPaginationField sch)" for v
    by (cases v) (simp_all add: isPaginatedSchema_iff, simp add: isPaginatedSchema_def)
  then show ?thesis by (simp add: list_ex_iff)
qed

text \<open>
  Claim C2, as stated: \<open>isPaginated\<close> holds exactly when a parameter is named like a page
  parameter or a success response's JSON schema has a pagination field. The operation
  \<open>c2_notFound\<close> has no parameters and only a \<open>404\<close> response, whose schema has the
  property \<open>page\<close>: the source reports it as paginated.
\<close>

theorem c2_error_response_paginates:
  "detectPagination c2_notFound \<and> \<not> claimedPaginated c2_notFound"
  by code_simp

text \<open>
  Claim C2, amended. \<open>isPaginated\<close> is true whenever a declared parameter's name equals
  \<open>page\<close>, \<open>offset\<close>, \<open>limit\<close> or \<open>size\<close> case-insensitively, or a response of any status
  has a schema (its \<open>application/json\<close> schema, else its inline schema; not resolved) with
  a top-level property named case-insensitively like one of \<open>paginationFields\<close>. It is
  true only if a parameter's name equals one of the six \<open>pageParamNames\<close>
  case-insensitively or a response of any status has such a schema. Whether a parameter
  named \<open>pageSize\<close> or \<open>pageNumber\<close> alone makes the operation paginated is left open.
\<close>

theorem pagination_bounds:
  "((\<exists>p \<in> set (parametersOf operation).
        \<exists>x \<in> set [''page'', ''offset'', ''limit'', ''size'']. sameIgnoringCase (p_name p) x)
     \<or> (\<exists>(status, response) \<in> set (op_responses operation).
           \<exists>sch. responseSchema response = Some sch \<and> hasPaginationField sch)
     \<longrightarrow> detectPagination operation)
   \<and> (detectPagination operation \<longrightarrow>
        (\<exists>p \<in> set (parametersOf operation).
           \<exists>x \<in> set pageParamNames. sameIgnoringCase (p_name p) x)
        \<or> (\<exists>(status, response) \<in> set (op_responses operation).
              \<exists>sch. responseSchema response = Some sch \<and> hasPaginationField sch))"
proof (intro conjI impI)
  assume "(\<exists>p \<in> set (parametersOf operation).
        \<exists>x \<in> set [''page'', ''offset'', ''limit'', ''size'']. sameIgnoringCase (p_name p) x)
     \<or> (\<exists>(status, response) \<in> set (op_responses operation).
           \<exists>sch. responseSchema response = Some sch \<and> hasPaginationField sch)"
  then show "detectPagination operation"
  proof
    assume "\<exists>p \<in> set (parametersOf operation).
        \<exists>x \<in> set [''page'', ''offset'', ''limit'', ''size'']. sameIgnoringCase (p_name p) x"
    then obtain p x where p: "p \<in> set (parametersOf operation)"
      and x: "x \<in> set [''page'', ''offset'', ''limit'', ''size'']"
      and same: "toLowerCase (p_name p) = toLowerCase x"
      by (auto simp: sameIgnoringCase_def)
    have "toLowerCase x = x"
      using x by (auto simp: toLowerCase_def lowerChar_def upperLetters_def lowerLetters_def)
    with same x have "toLowerCase (p_name p) \<in> set pageParamNames"
      by (auto simp: pageParamNames_def)
    with p show ?thesis
      by (auto simp: detectPagination_def Let_def list_ex_iff)
  next
    assume "\<exists>(status, response) \<in> set (op_responses operation).
           \<exists>sch. responseSchema response = Some sch \<and> hasPaginationField sch"
    then show ?thesis
      by (simp add: detectPagination_def Let_def paginated_response_iff)
  qed
next
  assume "detectPagination operation"
  then consider
    (params) "list_ex (\<lambda>p. toLowerCase (p_name p) \<in> set pageParamNames) (parametersOf operation)"
    | (resp) "\<exists>(status, response) \<in> set (op_responses operation).
                \<exists>sch. responseSchema response = Some sch \<and> hasPaginationField sch"
    by (auto simp: detectPagination_def Let_def paginated_response_iff)
  then show "(\<exists>p \<in> set (parametersOf operation).
           \<exists>x \<in> set pageParamNames. sameIgnoringCase (p_name p) x)
        \<or> (\<exists>(status, response) \<in> set (op_responses operation).
              \<exists>sch. responseSchema response = Some sch \<and> hasPaginationField sch)"
  proof cases
    case params
    then obtain p where p: "p \<in> set (parametersOf operation)"
      and l: "toLowerCase (p_name p) \<in> set pageParamNames"
      by (auto simp: list_ex_iff)
    have "sameIgnoringCase (p_name p) (toLowerCase (p_name p))"
      by (simp add: sameIgnoringCase_def toLowerCase_idem)
    with p l show ?thesis by blast
  next
    case resp
    then show ?thesis by blast
  qed
qed

text \<open>The operation \<open>c2_limit\<close> has the parameter \<open>Limit\<close>.\<close>

theorem pagination_bounds_witness:
  "sameIgnoringCase (p_name (schemaParam ''Limit'' InQuery ''integer'')) ''limit''
   \<and> detectPagination c2_limit"
proof -
  have p: "schemaParam ''Limit'' InQuery ''integer'' \<in> set (parametersOf c2_limit)"
    by (simp add: c2_limit_def emptyOperation_def parametersOf_def)
  have l: "sameIgnoringCase (p_name (schemaParam ''Limit'' InQuery ''integer'')) ''limit''"
    by code_simp
  have x: "''limit'' \<in> set [''page'', ''offset'', ''limit'', ''size'']"
    by simp
  from p l x have "\<exists>p \<in> set (parametersOf c2_limit).
        \<exists>x \<in> set [''page'', ''offset'', ''limit'', ''size'']. sameIgnoringCase (p_name p) x"
    by blast
  with pagination_bounds[of c2_limit] l show ?thesis by blast
qed

section \<open>Response models\<close>

lemma modelsOfResponse_member:
  assumes "modelsOfResponse depth opId api response = Inr ms" and "m \<in> set ms"
  shows "jsonSchema response \<noteq> None
         \<and> (modelName m = pascalCase opId @ ''OutData''
              \<or> modelName m = pascalCase opId @ ''RecordData'')
         \<and> usedInOperations m = Some opId"
  using assms
  by (auto simp: modelsOfResponse_def Let_def split: option.splits sum.splits if_splits)

lemma createResponseModels_member:
  assumes "createResponseModels depth operation api = Inr ms" and "m \<in> set ms"
  shows "truthy (op_operationId operation)
         \<and> (\<exists>(status, response) \<in> set (op_responses operation).
               startsWith status ''2'' \<and> jsonSchema response \<noteq> None)
         \<and> (modelName m = pascalCase (orElse (op_operationId operation) []) @ ''OutData''
              \<or> modelName m = pascalCase (orElse (op_operationId operation) []) @ ''RecordData'')
         \<and> usedInOperations m = Some (orElse (op_operationId operation) [])"
proof -
  from assms have t: "truthy (op_operationId operation)"
    by (auto simp: createResponseModels_def split: if_splits)
  with assms(1) obtain models where
    fe: "forEach (\<lambda>(status, response).
                    modelsOfResponse depth (orElse (op_operationId operation) []) api response)
           (filter (\<lambda>(status, response). startsWith status ''2'') (op_responses operation))
         = Inr models"
    and ms: "ms = concat models"
    by (auto simp: createResponseModels_def Let_def split: sum.splits)
  from assms(2) ms obtain ms' where ms': "ms' \<in> set models" and m: "m \<in> set ms'" by auto
  from forEach_member[OF fe ms'] obtain entry where
    e: "entry \<in> set (filter (\<lambda>(status, response). startsWith status ''2'')
                       (op_responses operation))"
    and r: "(case entry of (status, response) \<Rightarrow>
               modelsOfResponse depth (orElse (op_operationId operation) []) api response)
            = Inr ms'"
    by blast
  obtain status response where entry: "entry = (status, response)" by (cases entry)
  from r entry have
    "modelsOfResponse depth (orElse (op_operationId operation) []) api response = Inr ms'"
    by simp
  from modelsOfResponse_member[OF this m] e entry t show ?thesis by auto
qed

text \<open>
  Claim C10. For some specification, an API record's \<open>responseBodyRef\<close> names a model that
  is not in the returned models array. \<open>responseBodyRef\<close> is set exactly when some response
  of the operation, of any status, has an \<open>application/json\<close> schema or an inline schema;
  a model of \<open>createResponseModels\<close> comes only from an operation that declares an
  operationId and has a success response (status beginning with 2) with an
  \<open>application/json\<close> schema.
\<close>

theorem responseBodyRef_dangling:
  "(\<exists>api depth apis models a ref.
      extractDocumentationData depth api = Inr (apis, models) \<and> a \<in> set apis
      \<and> responseBodyRef a = Some ref \<and> ref \<notin> modelName ` set models)
   \<and> ((responseBodyRef (createApiDocumentation n path verb operation api) \<noteq> None)
        = (\<exists>(status, response) \<in> set (op_responses operation).
             jsonSchema response \<noteq> None \<or> r_schema response \<noteq> None))
   \<and> (createResponseModels depth operation api = Inr ms \<longrightarrow> m \<in> set ms \<longrightarrow>
        truthy (op_operationId operation)
        \<and> (\<exists>(status, response) \<in> set (op_responses operation).
              startsWith status ''2'' \<and> jsonSchema response \<noteq> None))"
proof (intro conjI impI)
  have "extractDocumentationData 1 c10_spec
        = Inr ([createApiDocumentation 1 ''/items/{id}'' ''get'' c10_operation c10_spec], [])"
    by code_simp
  moreover have "responseBodyRef (createApiDocumentation 1 ''/items/{id}'' ''get'' c10_operation c10_spec)
        = Some ''GetItemOutData''"
    by code_simp
  ultimately show "\<exists>api depth apis models a ref.
      extractDocumentationData depth api = Inr (apis, models) \<and> a \<in> set apis
      \<and> responseBodyRef a = Some ref \<and> ref \<notin> modelName ` set models"
    by (intro exI[of _ c10_spec] exI[of _ 1]
          exI[of _ "[createApiDocumentation 1 ''/items/{id}'' ''get'' c10_operation c10_spec]"]
          exI[of _ "[]"]
          exI[of _ "createApiDocumentation 1 ''/items/{id}'' ''get'' c10_operation c10_spec"]
          exI[of _ "''GetItemOutData''"]) simp
next
  have "(responseSchema response \<noteq> None)
        = (jsonSchema response \<noteq> None \<or> r_schema response \<noteq> None)" for response
    by (simp add: responseSchema_def split: option.splits)
  then show "(responseBodyRef (createApiDocumentation n path verb operation api) \<noteq> None)
        = (\<exists>(status, response) \<in> set (op_responses operation).
             jsonSchema response \<noteq> None \<or> r_schema response \<noteq> None)"
    by (simp add: createApiDocumentation_def Let_def hasResponseBody_def list_ex_iff)
next
  assume "createResponseModels depth operation api = Inr ms" and "m \<in> set ms"
  then show "truthy (op_operationId operation)"
    and "\<exists>(status, response) \<in> set (op_responses operation).
              startsWith status ''2'' \<and> jsonSchema response \<noteq> None"
    using createResponseModels_member by blast+
qed

text \<open>
  The operation \<open>c10_operation\<close> declares the operationId \<open>getItem\<close> and one response,
  \<open>404\<close>, with a JSON schema.
\<close>

theorem responseBodyRef_dangling_witness:
  "responseBodyRef (createApiDocumentation 1 ''/items/{id}'' ''get'' c10_operation c10_spec)
     = Some ''GetItemOutData''
   \<and> createResponseModels 1 c10_operation c10_spec = Inr []"
proof -
  have r: "\<exists>(status, response) \<in> set (op_responses c10_operation).
             jsonSchema response \<noteq> None \<or> r_schema response \<noteq> None"
    by code_simp
  have "responseBodyRef (createApiDocumentation 1 ''/items/{id}'' ''get'' c10_operation c10_spec)
        \<noteq> None"
    using responseBodyRef_dangling[of 1 "''/items/{id}''" "''get''" c10_operation c10_spec] r
    by blast
  moreover have "responseBodyRef
       (createApiDocumentation 1 ''/items/{id}'' ''get'' c10_operation c10_spec)
       = (if hasResponseBody c10_operation then Some ''GetItemOutData'' else None)"
    by code_simp
  moreover have "createResponseModels 1 c10_operation c10_spec = Inr []"
    by code_simp
  ultimately show ?thesis by (simp split: if_splits)
qed

section \<open>Schema composition\<close>

















section \<open>Request body models\<close>

lemma set_fold_pushUnseen:
  "set (fst st) \<subseteq> set (fst (fold pushUnseen ms st))
   \<and> set (fst (fold pushUnseen ms st)) \<subseteq> set (fst st) \<union> set ms"
proof (induction ms arbitrary: st)
  case Nil
  then show ?case by simp
next
  case (Cons m ms)
  have "set (fst st) \<subseteq> set (fst (pushUnseen m st))"
    and "set (fst (pushUnseen m st)) \<subseteq> set (fst st) \<union> {m}"
    by (auto simp: pushUnseen_def)
  with Cons.IH[of "pushUnseen m st"] show ?case by auto
qed

lemma queryParamsStep_member:
  assumes "m \<in> set (fst (queryParamsStep operation seen0))"
  shows "modelName m = pascalCase (orElse (op_operationId operation) ''unknown'') @ ''QueryParams''"
  using assms
  by (auto simp: queryParamsStep_def createQueryParamsModel_def pushUnseen_def Let_def
        split: if_splits option.splits)

lemma queryParamsStep_seen:
  "snd (queryParamsStep operation seen0)
   \<subseteq> insert (pascalCase (orElse (op_operationId operation) ''unknown'') @ ''QueryParams'') seen0"
  by (auto simp: queryParamsStep_def createQueryParamsModel_def pushUnseen_def Let_def
        split: if_splits option.splits)

lemma createRequestBodyModel_Inr:
  assumes "createRequestBodyModel depth operation api = Inr requestModel"
  shows "(requestModel \<noteq> None)
         = (truthy (op_operationId operation) \<and> jsonBodySchema operation \<noteq> None)"
    and "requestModel = Some m \<Longrightarrow>
           modelName m = pascalCase (orElse (op_operationId operation) []) @ ''InData''"
  using assms
  by (auto simp: createRequestBodyModel_def jsonBodySchema_def Let_def
        split: option.splits if_splits sum.splits)

lemma createRequestBodyModel_returns:
  assumes "\<forall>schema. jsonBodySchema operation = Some schema \<longrightarrow>
             (\<exists>resolved extracted. resolveSchema schema api = Inr resolved
                \<and> extractSchemaProperties depth resolved api = Inr extracted)"
  shows "\<exists>requestModel. createRequestBodyModel depth operation api = Inr requestModel"
proof (cases "jsonBodySchema operation")
  case None
  then show ?thesis
    by (auto simp: createRequestBodyModel_def jsonBodySchema_def split: option.splits)
next
  case (Some schema)
  with assms obtain resolved extracted where
    "resolveSchema schema api = Inr resolved"
    "extractSchemaProperties depth resolved api = Inr extracted" by blast
  with Some show ?thesis
    by (auto simp: createRequestBodyModel_def jsonBodySchema_def Let_def split: option.splits)
qed

lemma createRequestBodyModel_anonymous:
  "\<not> truthy (op_operationId operation) \<Longrightarrow>
   createRequestBodyModel depth operation api = Inr None"
  by (simp add: createRequestBodyModel_def split: option.splits)

text \<open>
  Claim C8, as stated: a request-body model \<open>PascalCase(operationId) + InData\<close> is emitted
  exactly when the operation declares an \<open>application/json\<close> request body content entry.
  The operation \<open>POST /items\<close> of \<open>c8_spec\<close> declares such an entry, with a schema, and
  no operationId: its API record has the operationId \<open>postItems\<close> and the reference
  \<open>PostItemsInData\<close>, and no model is returned. The operation \<open>c8_schemaless\<close> declares
  the operationId \<open>ping\<close> and an \<open>application/json\<close> entry that carries no schema: no
  model is returned for it either.
\<close>

theorem c8_json_body_without_operationId:
  "declaresJsonBody c8_anonymous
   \<and> map_sum id (\<lambda>r. (map operationId (fst r), map requestBodyRef (fst r), snd r))
       (extractDocumentationData 2 c8_spec)
     = Inr ([''postItems''], [Some ''PostItemsInData''], [])
   \<and> declaresJsonBody c8_schemaless
   \<and> op_operationId c8_schemaless = Some ''ping''
   \<and> map_sum id (\<lambda>r. (map operationId (fst r), map requestBodyRef (fst r), snd r))
       (extractDocumentationData 2 (pathsOnly [(''/ping'', [(''post'', c8_schemaless)])]))
     = Inr ([''ping''], [Some ''PingInData''], [])"
  by code_simp

text \<open>
  Claim C8, amended. \<open>createRequestBodyModel\<close> returns early for an operation without a
  declared operationId, and for an \<open>application/json\<close> content entry that carries no
  schema. So, for an operation that declares a non-empty operationId, with the name
  \<open>PascalCase(operationId) + InData\<close> not emitted earlier in the call: whenever the
  extraction of the operation's models returns, a model with that name is among them if
  and only if the operation declares an \<open>application/json\<close> request body content entry
  that carries a schema; and the extraction does return when the resolution and property
  extraction of that schema return and the response models are built. For an operation
  that declares no operationId the extraction returns and no request-body model is
  emitted: every model extracted for it is the query parameters model.
\<close>

theorem requestBody_model_iff:
  "(op_operationId operation = Some opId \<longrightarrow> opId \<noteq> [] \<longrightarrow>
      pascalCase opId @ ''InData'' \<notin> seenModels \<longrightarrow>
      (\<forall>models seen'.
         extractModelsFromOperation depth operation api seenModels = Inr (models, seen') \<longrightarrow>
         (pascalCase opId @ ''InData'' \<in> modelName ` set models)
         = (jsonBodySchema operation \<noteq> None))
      \<and> ((\<forall>schema. jsonBodySchema operation = Some schema \<longrightarrow>
             (\<exists>resolved extracted. resolveSchema schema api = Inr resolved
                \<and> extractSchemaProperties depth resolved api = Inr extracted)) \<longrightarrow>
          createResponseModels depth operation api = Inr responseModels \<longrightarrow>
          (\<exists>models seen'.
             extractModelsFromOperation depth operation api seenModels = Inr (models, seen'))))
   \<and> (\<not> truthy (op_operationId operation) \<longrightarrow>
        createRequestBodyModel depth operation api = Inr None
        \<and> (\<exists>models seen'.
              extractModelsFromOperation depth operation api seenModels = Inr (models, seen')
              \<and> (\<forall>m \<in> set models. modelName m = pascalCase ''unknown'' @ ''QueryParams'')))"
proof -
  have iff: "(pascalCase opId @ ''InData'' \<in> modelName ` set models)
             = (jsonBodySchema operation \<noteq> None)"
    if opId: "op_operationId operation = Some opId" and ne: "opId \<noteq> []"
      and unseen: "pascalCase opId @ ''InData'' \<notin> seenModels"
      and r: "extractModelsFromOperation depth operation api seenModels = Inr (models, seen')"
    for models seen'
  proof -
    from extractModelsFromOperation_Inr[OF r] obtain requestModel responseModels where
      rm: "(if op_requestBody operation \<noteq> None then createRequestBodyModel depth operation api
            else Inr None) = Inr requestModel"
      and rms: "createResponseModels depth operation api = Inr responseModels"
      and st: "(models, seen') = fold pushUnseen responseModels
                    (case requestModel of
                       None \<Rightarrow> queryParamsStep operation seenModels
                     | Some m \<Rightarrow> pushUnseen m (queryParamsStep operation seenModels))"
      by blast
    define st1 where "st1 = queryParamsStep operation seenModels"
    define st2 where "st2 = (case requestModel of None \<Rightarrow> st1 | Some m \<Rightarrow> pushUnseen m st1)"
    have models: "models = fst (fold pushUnseen responseModels st2)"
      using st unfolding st2_def st1_def by (metis fst_conv)
    have lower: "set (fst st2) \<subseteq> set models"
      and upper: "set models \<subseteq> set (fst st2) \<union> set responseModels"
      unfolding models using set_fold_pushUnseen[of st2 responseModels] by blast+
    have rm_iff: "(requestModel \<noteq> None)
                  = (truthy (op_operationId operation) \<and> jsonBodySchema operation \<noteq> None)"
    proof (cases "op_requestBody operation")
      case None
      with rm show ?thesis by (auto simp: jsonBodySchema_def)
    next
      case (Some requestBody)
      with rm have "createRequestBodyModel depth operation api = Inr requestModel" by simp
      then show ?thesis by (rule createRequestBodyModel_Inr(1))
    qed
    have rm_name: "modelName m = pascalCase (orElse (op_operationId operation) []) @ ''InData''"
      if "requestModel = Some m" for m
    proof -
      from that rm have "createRequestBodyModel depth operation api = Inr requestModel"
        by (auto split: if_splits)
      from createRequestBodyModel_Inr(2)[OF this that] show ?thesis .
    qed
    have t: "truthy (op_operationId operation)"
      and o1: "orElse (op_operationId operation) ''unknown'' = opId"
      and o2: "orElse (op_operationId operation) [] = opId"
      using opId ne by (simp_all add: truthy_def orElse_def)
    show ?thesis
    proof
      assume "pascalCase opId @ ''InData'' \<in> modelName ` set models"
      then obtain m where m: "m \<in> set models"
        and n: "modelName m = pascalCase opId @ ''InData''" by auto
      have "m \<notin> set responseModels"
        using createResponseModels_member[OF rms, of m] n o2 by auto
      moreover have "m \<notin> set (fst st1)"
        using queryParamsStep_member[of m operation seenModels] n o1
        unfolding st1_def by auto
      ultimately have "requestModel \<noteq> None"
        using m upper unfolding st2_def by (auto split: option.splits)
      with rm_iff show "jsonBodySchema operation \<noteq> None" by simp
    next
      assume "jsonBodySchema operation \<noteq> None"
      with rm_iff t obtain m where some: "requestModel = Some m" by auto
      from rm_name[OF some] o2 have n: "modelName m = pascalCase opId @ ''InData''" by simp
      have "modelName m \<notin> snd st1"
        using queryParamsStep_seen[of operation seenModels] unseen n o1
        unfolding st1_def by auto
      then have "m \<in> set (fst st2)"
        unfolding st2_def some by (simp add: pushUnseen_def)
      with lower n show "pascalCase opId @ ''InData'' \<in> modelName ` set models"
        by force
    qed
  qed
  have returns: "\<exists>models seen'.
             extractModelsFromOperation depth operation api seenModels = Inr (models, seen')"
    if body: "\<forall>schema. jsonBodySchema operation = Some schema \<longrightarrow>
             (\<exists>resolved extracted. resolveSchema schema api = Inr resolved
                \<and> extractSchemaProperties depth resolved api = Inr extracted)"
      and rms: "createResponseModels depth operation api = Inr responseModels"
  proof -
    from createRequestBodyModel_returns[OF body] obtain requestModel where
      "createRequestBodyModel depth operation api = Inr requestModel" by blast
    with rms show ?thesis
      by (simp add: extractModelsFromOperation_def Let_def)
  qed
  have anonymous: "createRequestBodyModel depth operation api = Inr None
        \<and> (\<exists>models seen'.
              extractModelsFromOperation depth operation api seenModels = Inr (models, seen')
              \<and> (\<forall>m \<in> set models. modelName m = pascalCase ''unknown'' @ ''QueryParams''))"
    if nt: "\<not> truthy (op_operationId operation)"
  proof -
    have none: "createRequestBodyModel depth operation api = Inr None"
      using nt by (rule createRequestBodyModel_anonymous)
    have rms: "createResponseModels depth operation api = Inr []"
      using nt by (simp add: createResponseModels_def)
    have r: "extractModelsFromOperation depth operation api seenModels
             = Inr (queryParamsStep operation seenModels)"
      using none rms by (simp add: extractModelsFromOperation_def Let_def)
    have "orElse (op_operationId operation) ''unknown'' = ''unknown''"
      using nt by (auto simp: truthy_def orElse_def split: option.splits)
    then have "\<forall>m \<in> set (fst (queryParamsStep operation seenModels)).
                 modelName m = pascalCase ''unknown'' @ ''QueryParams''"
      using queryParamsStep_member[of _ operation seenModels] by auto
    with r none show ?thesis
      by (cases "queryParamsStep operation seenModels") auto
  qed
  from iff returns anonymous show ?thesis by blast
qed

text \<open>
  The operation \<open>c8_named\<close> declares the operationId \<open>createItem\<close> and a JSON body with a
  schema; \<open>c8_schemaless\<close> declares the operationId \<open>ping\<close> and a JSON body without one;
  \<open>c8_anonymous\<close> declares no operationId.
\<close>

theorem requestBody_model_iff_witness:
  "jsonBodySchema c8_named \<noteq> None
   \<and> (\<exists>models seen'. extractModelsFromOperation 2 c8_named (pathsOnly []) {} = Inr (models, seen')
        \<and> ''CreateItemInData'' \<in> modelName ` set models)
   \<and> jsonBodySchema c8_schemaless = None
   \<and> (\<exists>models seen'.
         extractModelsFromOperation 2 c8_schemaless (pathsOnly []) {} = Inr (models, seen')
         \<and> ''PingInData'' \<notin> modelName ` set models)
   \<and> createRequestBodyModel 2 c8_anonymous (pathsOnly []) = Inr None
   \<and> (\<exists>models seen'.
         extractModelsFromOperation 2 c8_anonymous (pathsOnly []) {} = Inr (models, seen')
         \<and> ''PostItemsInData'' \<notin> modelName ` set models)"
proof -
  have named: "op_operationId c8_named = Some ''createItem''"
    "pascalCase ''createItem'' @ ''InData'' = ''CreateItemInData''"
    "jsonBodySchema c8_named \<noteq> None"
    "createResponseModels 2 c8_named (pathsOnly []) = Inr []"
    by code_simp+
  have body: "jsonBodySchema c8_named
              = Some (objectSchema [(''name'', typedSchema ''string'')] [])"
    "resolveSchema (objectSchema [(''name'', typedSchema ''string'')] []) (pathsOnly [])
     = Inr (objectSchema [(''name'', typedSchema ''string'')] [])"
    "extractSchemaProperties 2 (objectSchema [(''name'', typedSchema ''string'')] [])
       (pathsOnly [])
     = Inr ([(''name'', PrimitiveProperty ''string'' None None None)], [])"
    by code_simp+
  then have extracts: "\<forall>schema. jsonBodySchema c8_named = Some schema \<longrightarrow>
       (\<exists>resolved extracted. resolveSchema schema (pathsOnly []) = Inr resolved
          \<and> extractSchemaProperties 2 resolved (pathsOnly []) = Inr extracted)"
    by simp
  have schemaless: "op_operationId c8_schemaless = Some ''ping''"
    "pascalCase ''ping'' @ ''InData'' = ''PingInData''"
    "jsonBodySchema c8_schemaless = None"
    "createResponseModels 2 c8_schemaless (pathsOnly []) = Inr []"
    by code_simp+
  have anonymous: "\<not> truthy (op_operationId c8_anonymous)"
    "pascalCase ''unknown'' @ ''QueryParams'' = ''UnknownQueryParams''"
    by code_simp+
  note n = requestBody_model_iff[of c8_named "''createItem''" "{}" 2 "pathsOnly []" "[]"]
  note s = requestBody_model_iff[of c8_schemaless "''ping''" "{}" 2 "pathsOnly []" "[]"]
  note a = requestBody_model_iff[of c8_anonymous _ "{}" 2 "pathsOnly []"]
  from n named extracts obtain models seen' where
    "extractModelsFromOperation 2 c8_named (pathsOnly []) {} = Inr (models, seen')"
    by auto
  moreover from this n named have "''CreateItemInData'' \<in> modelName ` set models"
    by auto
  moreover from s schemaless obtain models2 seen2 where
    "extractModelsFromOperation 2 c8_schemaless (pathsOnly []) {} = Inr (models2, seen2)"
    by auto
  moreover from this s schemaless have "''PingInData'' \<notin> modelName ` set models2"
    by auto
  moreover note unnamed = a[THEN conjunct2, THEN mp, OF anonymous(1)]
  from unnamed have
    "createRequestBodyModel 2 c8_anonymous (pathsOnly []) = Inr None"
    by (rule conjunct1)
  moreover from unnamed anonymous(2) obtain models3 seen3 where
    "extractModelsFromOperation 2 c8_anonymous (pathsOnly []) {} = Inr (models3, seen3)"
    "\<forall>m \<in> set models3. modelName m = ''UnknownQueryParams''"
    by auto
  then have "\<exists>models seen'.
         extractModelsFromOperation 2 c8_anonymous (pathsOnly []) {} = Inr (models, seen')
         \<and> ''PostItemsInData'' \<notin> modelName ` set models"
    by (intro exI[of _ models3] exI[of _ seen3]) auto
  ultimately show ?thesis using named(3) schemaless(3) by blast
qed

section \<open>Unresolvable references\<close>





text \<open>
  What \<open>missing\<close> means for the source. In \<open>c7_otherSchemas\<close> the table of component
  schemas has the one key \<open>Pet\<close>. The segment \<open>NewPet\<close> reads \<open>undefined\<close> there. The
  segment \<open>constructor\<close> is no key of the table either, but the table inherits a member
  of that name, and the walk goes on with it. A pointer through a field that the document
  does not have, as \<open>#/parameters/Foo\<close> and \<open>#/swagger/x\<close>, reads \<open>undefined\<close>. A
  pointer may lead into a schema, to one of its properties or to an entry of an array.
\<close>

lemma walk_examples:
  "walk (specTree c7_otherSchemas) (refPath ''#/components/schemas/NewPet'') = Undefined
   \<and> walk (specTree c7_otherSchemas) (refPath ''#/components/schemas/constructor'')
       = Value Inherited
   \<and> walk (specTree c7_otherSchemas) (refPath ''#/components/schemas/Pet'')
       = Value (Sch (objectSchema [(''id'', typedSchema ''string'')] [''id'']))
   \<and> walk (specTree c7_otherSchemas) (refPath ''#/components/schemas/Pet/properties/id'')
       = Value (Sch (typedSchema ''string''))
   \<and> walk (specTree c7_otherSchemas) (refPath ''#/components/schemas/Pet/required/0'')
       = Value Primitive
   \<and> walk (specTree c7_otherSchemas) (refPath ''#/components/schemas/Pet/required/length/x'')
       = Untyped
   \<and> walk (specTree c7_otherSchemas) (refPath ''#/components/schemas/Pet/required/a-b'')
       = Undefined
   \<and> walk (specTree c7_otherSchemas) (refPath ''#/components/schemas/Pet/required/1'')
       = Undefined
   \<and> walk (specTree c7_otherSchemas) (refPath ''#/parameters/Foo'') = Undefined
   \<and> walk (specTree c7_otherSchemas) (refPath ''#/swagger/x'') = Undefined
   \<and> walk (specTree c7_otherSchemas) (refPath ''#/components/schemas'')
       = Value (Obj [(''Pet'', Sch (objectSchema [(''id'', typedSchema ''string'')] [''id'']))])"
  by code_simp




section \<open>Referential integrity under declared operationIds\<close>

text \<open>
  The \<open>unknown\<close> fallback is the only way in which \<open>usedInOperations\<close> can list an
  operation that has no API record: when every operation of the document declares an
  operationId, every operationId that a returned model lists is the operationId of a
  returned API record.
\<close>

lemma queryParamsStep_used:
  assumes "m \<in> set (fst (queryParamsStep operation seen0))"
  shows "usedInOperations m = Some (orElse (op_operationId operation) ''unknown'')"
  using assms
  by (auto simp: queryParamsStep_def createQueryParamsModel_def pushUnseen_def Let_def
        split: if_splits option.splits)

lemma createRequestBodyModel_used:
  assumes "createRequestBodyModel depth operation api = Inr (Some m)"
  shows "usedInOperations m = Some (orElse (op_operationId operation) [])"
  using assms
  by (auto simp: createRequestBodyModel_def Let_def split: option.splits if_splits sum.splits)

lemma extractModelsFromOperation_used:
  assumes "extractModelsFromOperation depth operation api seen0 = Inr st"
    and "m \<in> set (fst st)" and "truthy (op_operationId operation)"
  shows "usedInOperations m = Some (orElse (op_operationId operation) [])"
proof -
  from extractModelsFromOperation_Inr[OF assms(1)] obtain requestModel responseModels where
    rm: "(if op_requestBody operation \<noteq> None then createRequestBodyModel depth operation api
          else Inr None) = Inr requestModel"
    and rms: "createResponseModels depth operation api = Inr responseModels"
    and st: "st = fold pushUnseen responseModels
                  (case requestModel of
                     None \<Rightarrow> queryParamsStep operation seen0
                   | Some m \<Rightarrow> pushUnseen m (queryParamsStep operation seen0))"
    by blast
  have same: "orElse (op_operationId operation) ''unknown'' = orElse (op_operationId operation) []"
    using assms(3) by (auto simp: truthy_def orElse_def split: option.splits)
  from assms(2) st set_fold_pushUnseen[of
      "case requestModel of
         None \<Rightarrow> queryParamsStep operation seen0
       | Some m \<Rightarrow> pushUnseen m (queryParamsStep operation seen0)" responseModels]
  consider (response) "m \<in> set responseModels"
    | (request) "requestModel = Some m"
    | (query) "m \<in> set (fst (queryParamsStep operation seen0))"
    by (cases requestModel) (auto simp: pushUnseen_def split: if_splits)
  then show ?thesis
  proof cases
    case response
    with createResponseModels_member[OF rms] show ?thesis by blast
  next
    case request
    with rm have "createRequestBodyModel depth operation api = Inr (Some m)"
      by (auto split: if_splits)
    then show ?thesis by (rule createRequestBodyModel_used)
  next
    case query
    from queryParamsStep_used[OF this] same show ?thesis by simp
  qed
qed

lemma standaloneLoop_used:
  "standaloneLoop depth api schemas st = Inr st' \<Longrightarrow> m \<in> set (fst st')
   \<Longrightarrow> m \<in> set (fst st) \<or> usedInOperations m = None"
proof (induction schemas arbitrary: st)
  case Nil
  then show ?case by simp
next
  case (Cons entry schemas)
  obtain name schema where entry: "entry = (name, schema)" by (cases entry)
  show ?case
  proof (cases "pascalCase name @ ''Data'' \<in> snd st")
    case True
    with Cons entry show ?thesis by (simp add: Let_def)
  next
    case False
    with Cons.prems(1) entry obtain properties where
      rest: "standaloneLoop depth api schemas
               (fst st @
                  [\<lparr> m_sNo = 0,
                     modelName = pascalCase name @ ''Data'',
                     m_properties = fst properties,
                     m_required = requiredOrUndefined (snd properties),
                     m_description = Some (orElse (s_description schema) (name @ '' entity model'')),
                     usedInOperations = None \<rparr>],
                insert (pascalCase name @ ''Data'') (snd st)) = Inr st'"
      by (auto simp: Let_def split: sum.splits)
    from Cons.IH[OF rest Cons.prems(2)] show ?thesis by auto
  qed
qed

lemma operationsLoop_used:
  "operationsLoop depth api ops st = Inr st'
   \<Longrightarrow> \<forall>(path, verb, operation) \<in> set ops. truthy (op_operationId operation)
   \<Longrightarrow> listedOperationsExist st \<Longrightarrow> listedOperationsExist st'"
proof (induction ops arbitrary: st)
  case Nil
  then show ?case by simp
next
  case (Cons entry ops)
  obtain path verb operation where entry: "entry = (path, verb, operation)"
    by (cases entry) auto
  define apiDoc where "apiDoc = createApiDocumentation (x_apiIndex st) path verb operation api"
  from Cons.prems(1) entry obtain operationModels where
    om: "extractModelsFromOperation depth operation api (x_seenModels st) = Inr operationModels"
    and rest: "operationsLoop depth api ops
            \<lparr> x_apis = x_apis st @ [apiDoc],
              x_models = x_models st @ fst operationModels,
              x_seenModels = snd operationModels,
              x_apiIndex = x_apiIndex st + 1 \<rparr> = Inr st'"
    by (auto simp: Let_def apiDoc_def split: sum.splits)
  from Cons.prems(2) entry have t: "truthy (op_operationId operation)" by simp
  then have "operationId apiDoc = orElse (op_operationId operation) []"
    by (auto simp: apiDoc_def createApiDocumentation_def Let_def truthy_def orElse_def
          split: option.splits)
  with extractModelsFromOperation_used[OF om _ t]
  have new: "\<forall>m \<in> set (fst operationModels). usedInOperations m = Some (operationId apiDoc)"
    by simp
  have "listedOperationsExist
            \<lparr> x_apis = x_apis st @ [apiDoc],
              x_models = x_models st @ fst operationModels,
              x_seenModels = snd operationModels,
              x_apiIndex = x_apiIndex st + 1 \<rparr>"
    using Cons.prems(3) new unfolding listedOperationsExist_def by auto
  moreover from Cons.prems(2) have
    "\<forall>(path, verb, operation) \<in> set ops. truthy (op_operationId operation)" by simp
  ultimately show ?case using Cons.IH[OF rest] by blast
qed

lemma usedInOperations_assignNumbers:
  "m \<in> set (assignNumbers models) \<Longrightarrow> \<exists>m' \<in> set models. usedInOperations m = usedInOperations m'"
  unfolding assignNumbers_def by (auto simp: in_set_enumerate_eq)

lemma usedInOperations_declared:
  assumes "extractDocumentationData depth api = Inr (apis, models)"
    and "\<forall>(path, verb, operation) \<in> set (operationsOf api). truthy (op_operationId operation)"
    and "m \<in> set models" and "usedInOperations m = Some opId"
  shows "opId \<in> operationId ` set apis"
proof -
  from assms(1) obtain st standalone where
    loop: "operationsLoop depth api (operationsOf api)
             \<lparr> x_apis = [], x_models = [], x_seenModels = {}, x_apiIndex = 1 \<rparr> = Inr st"
    and sa: "standaloneLoop depth api (standaloneSchemas api) ([], x_seenModels st) = Inr standalone"
    and apis: "apis = x_apis st"
    and models: "models = assignNumbers (x_models st @ fst standalone)"
    by (auto simp: extractDocumentationData_def extractStandaloneModels_def split: sum.splits)
  have "listedOperationsExist \<lparr> x_apis = [], x_models = [], x_seenModels = {}, x_apiIndex = 1 \<rparr>"
    by (simp add: listedOperationsExist_def)
  with operationsLoop_used[OF loop assms(2)] have ex: "listedOperationsExist st" by simp
  from assms(3) models obtain m' where
    m': "m' \<in> set (x_models st @ fst standalone)"
    and u: "usedInOperations m = usedInOperations m'"
    using usedInOperations_assignNumbers by blast
  from standaloneLoop_used[OF sa] m' assms(4) u have "m' \<in> set (x_models st)"
    by auto
  with ex assms(4) u apis show ?thesis
    unfolding listedOperationsExist_def by auto
qed

end
